theory Spec2Isabelle
  imports Complex_Main
begin

section \<open>Numbers\<close>

text \<open>
  JavaScript numbers are modelled by \<^typ>\<open>real\<close>: finite values with exact arithmetic.
  Where the renderer can produce a non-finite value out of finite ones
  (\<open>Math.pow(0, p)\<close> with \<open>p < 0\<close>, arithmetic on \<open>undefined\<close>), the value is a
  \<open>jsnum\<close>.
\<close>

datatype jsnum = Num real | PosInfinity | NegInfinity | NaN

text \<open>
  Division, multiplication, rounding and comparison as JavaScript has them; zero has no
  sign here, a division by zero is a division by \<open>+0\<close>.
\<close>

fun jsDiv :: "jsnum \<Rightarrow> jsnum \<Rightarrow> jsnum" where
  "jsDiv (Num x) (Num y) =
     (if y \<noteq> 0 then Num (x / y)
      else if x > 0 then PosInfinity else if x < 0 then NegInfinity else NaN)"
| "jsDiv (Num x) PosInfinity = Num 0"
| "jsDiv (Num x) NegInfinity = Num 0"
| "jsDiv PosInfinity (Num y) = (if y \<ge> 0 then PosInfinity else NegInfinity)"
| "jsDiv NegInfinity (Num y) = (if y \<ge> 0 then NegInfinity else PosInfinity)"
| "jsDiv _ _ = NaN"

fun jsMul :: "jsnum \<Rightarrow> jsnum \<Rightarrow> jsnum" where
  "jsMul (Num x) (Num y) = Num (x * y)"
| "jsMul (Num x) PosInfinity =
     (if x > 0 then PosInfinity else if x < 0 then NegInfinity else NaN)"
| "jsMul (Num x) NegInfinity =
     (if x > 0 then NegInfinity else if x < 0 then PosInfinity else NaN)"
| "jsMul PosInfinity (Num y) =
     (if y > 0 then PosInfinity else if y < 0 then NegInfinity else NaN)"
| "jsMul NegInfinity (Num y) =
     (if y > 0 then NegInfinity else if y < 0 then PosInfinity else NaN)"
| "jsMul PosInfinity PosInfinity = PosInfinity"
| "jsMul NegInfinity NegInfinity = PosInfinity"
| "jsMul PosInfinity NegInfinity = NegInfinity"
| "jsMul NegInfinity PosInfinity = NegInfinity"
| "jsMul _ _ = NaN"

text \<open>\<open>Math.round\<close> rounds half up; \<open>Math.floor\<close>, \<open>Math.ceil\<close>.\<close>

fun jsRound :: "jsnum \<Rightarrow> jsnum" where
  "jsRound (Num x) = Num (of_int \<lfloor>x + 1 / 2\<rfloor>)"
| "jsRound x = x"

fun jsFloor :: "jsnum \<Rightarrow> jsnum" where
  "jsFloor (Num x) = Num (of_int \<lfloor>x\<rfloor>)"
| "jsFloor x = x"

fun jsCeil :: "jsnum \<Rightarrow> jsnum" where
  "jsCeil (Num x) = Num (of_int \<lceil>x\<rceil>)"
| "jsCeil x = x"

text \<open>\<open>x > y\<close>: false when an operand is \<open>NaN\<close>.\<close>

fun jsGt :: "jsnum \<Rightarrow> jsnum \<Rightarrow> bool" where
  "jsGt (Num x) (Num y) = (x > y)"
| "jsGt PosInfinity (Num y) = True"
| "jsGt PosInfinity NegInfinity = True"
| "jsGt (Num x) NegInfinity = True"
| "jsGt _ _ = False"

text \<open>\<open>Math.min(x, y)\<close>: \<open>NaN\<close> when an operand is \<open>NaN\<close>.\<close>

fun jsMin :: "jsnum \<Rightarrow> jsnum \<Rightarrow> jsnum" where
  "jsMin NaN _ = NaN"
| "jsMin _ NaN = NaN"
| "jsMin NegInfinity _ = NegInfinity"
| "jsMin _ NegInfinity = NegInfinity"
| "jsMin PosInfinity y = y"
| "jsMin x PosInfinity = x"
| "jsMin (Num x) (Num y) = Num (min x y)"

text \<open>\<open>x || d\<close> and the truth value of an optional number: \<open>undefined\<close> and 0 are falsy.\<close>

definition truthy :: "real option \<Rightarrow> bool" where
  "truthy x = (case x of None \<Rightarrow> False | Some v \<Rightarrow> v \<noteq> 0)"

definition orElse :: "real option \<Rightarrow> real \<Rightarrow> real" where
  "orElse x d = (case x of None \<Rightarrow> d | Some v \<Rightarrow> if v = 0 then d else v)"

section \<open>Drawing surfaces\<close>

text \<open>
  A 2D context is modelled by the properties the renderer writes and the log of the calls
  it makes, in order. \<open>Fill\<close> and \<open>FillRect\<close> record the fill style in force at the call.
  A call with an argument that is not finite draws nothing and is not logged.
\<close>

datatype fillStyle = CssColor string | CanvasGradient real "(real \<times> string) list"

datatype command =
    BeginPath
  | ClosePath
  | Rect real real real real
  | RoundRect real real real real real
  | MoveTo real real
  | LineTo real real
  | Fill fillStyle
  | DrawImage "command list"
  | FillRect fillStyle string real real real real

record Context2D =
  canvasWidth :: int
  canvasHeight :: int
  hasRoundRect :: bool
  fillStyle :: fillStyle
  globalCompositeOperation :: string
  commands :: "command list"

definition call :: "command list \<Rightarrow> Context2D \<Rightarrow> Context2D" where
  "call cs ctx = ctx\<lparr>commands := commands ctx @ cs\<rparr>"

text \<open>
  The channels handed to the rasterizer: \<open>render\<close> and \<open>renderMultiCanvas\<close> pass one or
  two. \<open>channel0\<close> is \<open>channelData[0]\<close>, \<open>channel1\<close> is
  \<open>channelData[1] || channelData[0]\<close>.
\<close>

datatype channels = Mono "real list" | Stereo "real list" "real list"

fun channel0 :: "channels \<Rightarrow> real list" where
  "channel0 (Mono c) = c"
| "channel0 (Stereo c d) = c"

fun channel1 :: "channels \<Rightarrow> real list" where
  "channel1 (Mono c) = c"
| "channel1 (Stereo c d) = d"

text \<open>\<open>Math.abs(channel[i] || 0)\<close>: an index past the end reads \<open>undefined\<close>.\<close>

definition magnitudeAt :: "real list \<Rightarrow> nat \<Rightarrow> real" where
  "magnitudeAt channel i = (if i < length channel then \<bar>channel ! i\<bar> else 0)"

text \<open>A color option: a string, an array of strings or a gradient object.\<close>

datatype colorOption =
    ColorString string
  | ColorArray "string list"
  | ColorGradient real "(real \<times> string) list"


section \<open>Segment count chosen by \<open>render\<close>\<close>

text \<open>
  \<open>render\<close>, with colorization enabled:
  \<^verbatim>\<open>
  const fftSize = 128;
  const maxPossibleSegments = Math.floor(audioData.length / fftSize);
  const segmentsBasedOnWidth = Math.max(100, Math.ceil(width / pixelRatio / 5));
  const numberOfSegments = Math.min(maxPossibleSegments, segmentsBasedOnWidth);
  const finalNumberOfSegments = Math.max(1, numberOfSegments);
  \<close>
  \<open>pixelRatio\<close> is \<open>Math.max(1, window.devicePixelRatio || 1)\<close>, never zero.
\<close>

definition fftSize :: nat where
  "fftSize = 128"

definition maxPossibleSegments :: "nat \<Rightarrow> int" where
  "maxPossibleSegments audioLength = \<lfloor>real audioLength / real fftSize\<rfloor>"

definition segmentsBasedOnWidth :: "real \<Rightarrow> real \<Rightarrow> int" where
  "segmentsBasedOnWidth width pixelRatio = max 100 \<lceil>width / pixelRatio / 5\<rceil>"

definition finalNumberOfSegments :: "nat \<Rightarrow> real \<Rightarrow> real \<Rightarrow> int" where
  "finalNumberOfSegments audioLength width pixelRatio =
     (let numberOfSegments = min (maxPossibleSegments audioLength) (segmentsBasedOnWidth width pixelRatio)
      in max 1 numberOfSegments)"

section \<open>Options and audio data\<close>

text \<open>A color stop of \<open>brightnessColors\<close>: \<open>{stop: number, color: string}\<close>.\<close>

record ColorStop =
  stop :: real
  color :: string


text \<open>
  The fields of \<open>WaveSurferOptions\<close> that the renderer reads here. An optional field is
  an \<open>option\<close>; \<open>None\<close> is \<open>undefined\<close>.
\<close>

record WaveSurferOptions =
  colorizeByBrightness :: bool
  colorAnalysisType :: "string option"
  brightnessColors :: "ColorStop list option"
  normalizationPower :: "real option"
  barWidth :: "real option"
  barGap :: "real option"
  barRadius :: "real option"
  barAlign :: "string option"
  barHeight :: "real option"
  normalize :: bool
  waveColor :: "colorOption option"
  progressColor :: "colorOption option"
  renderFunction :: "(channels \<Rightarrow> Context2D \<Rightarrow> Context2D) option"
  minPxPerSec :: "real option"
  audioRate :: "real option"
  fillParent :: bool

text \<open>
  An \<open>AudioBuffer\<close> has a sample rate and at least one channel; all channels have the
  same number of samples, \<open>audioData.length\<close>.
\<close>

record AudioBuffer =
  sampleRate :: real
  firstChannel :: "real list"
  moreChannels :: "real list list"

text \<open>\<open>getChannelData(i)\<close> for \<open>i < numberOfChannels\<close>; the analysis reads channel 0.\<close>

definition getChannelData :: "AudioBuffer \<Rightarrow> nat \<Rightarrow> real list" where
  "getChannelData audioBuffer i =
     (if i = 0 then firstChannel audioBuffer else moreChannels audioBuffer ! (i - 1))"

definition numberOfChannels :: "AudioBuffer \<Rightarrow> nat" where
  "numberOfChannels audioBuffer = 1 + length (moreChannels audioBuffer)"

definition audioLength :: "AudioBuffer \<Rightarrow> nat" where
  "audioLength audioBuffer = length (firstChannel audioBuffer)"

text \<open>The fields of the \<open>Renderer\<close> object that the functions below read or write.\<close>

record Renderer =
  options :: WaveSurferOptions
  isScrollable :: bool
  brightnessData :: "jsnum list"
  prominentFrequencyData :: "jsnum list"

section \<open>Spectral Analyzer\<close>

definition hopSize :: nat where
  "hopSize = fftSize div 4"

text \<open>The Hann window: \<open>0.5 * (1 - Math.cos(2 * Math.PI * i / (fftSize - 1)))\<close>.\<close>

definition windowValue :: "nat \<Rightarrow> real" where
  "windowValue i = 0.5 * (1 - cos (2 * pi * real i / (real fftSize - 1)))"

text \<open>
  The input of the transform for the frame at \<open>frameStart\<close>: real and imaginary parts
  interleaved, the imaginary parts zero. A read past the end of the channel is
  \<open>undefined\<close> and makes the product \<open>NaN\<close>: the frame is then \<open>None\<close>.
\<close>

definition fftInput :: "real list \<Rightarrow> nat \<Rightarrow> real list option" where
  "fftInput channelData frameStart =
     (if frameStart + fftSize \<le> length channelData
      then Some (concat (map (\<lambda>i. [channelData ! (frameStart + i) * windowValue i, 0]) [0..<fftSize]))
      else None)"

text \<open>
  Modelled from the spec: \<open>FFT.transform\<close> of \<open>utils/fft.js\<close>, which is not among the
  sources. The spec has it as the discrete Fourier transform of the tapered window; input
  and output are arrays of \<open>2 * fftSize\<close> numbers, real and imaginary parts interleaved.
\<close>

definition transform :: "real list \<Rightarrow> real list" where
  "transform data =
     concat (map (\<lambda>k.
       [(\<Sum>n<fftSize. (data ! (2 * n) * cos (2 * pi * real k * real n / real fftSize)
                      + data ! (2 * n + 1) * sin (2 * pi * real k * real n / real fftSize))),
        (\<Sum>n<fftSize. (data ! (2 * n + 1) * cos (2 * pi * real k * real n / real fftSize)
                      - data ! (2 * n) * sin (2 * pi * real k * real n / real fftSize)))])
       [0..<fftSize])"

definition magnitude :: "real list \<Rightarrow> nat \<Rightarrow> real" where
  "magnitude fftOutput i =
     (let re = fftOutput ! (i * 2); im = fftOutput ! (i * 2 + 1)
      in sqrt (re * re + im * im))"

text \<open>
  The spectral centroid of one transformed frame, bin 0 skipped:
  \<^verbatim>\<open>
  for (let i = 1; i < fftSize / 2; i++) {
    const frequency = (i * sampleRate) / fftSize
    ...
    numerator += frequency * magnitude
    denominator += magnitude
  }
  const centroid = denominator !== 0 ? numerator / denominator : 0
  \<close>
\<close>

definition centroidDenominator :: "real list \<Rightarrow> real" where
  "centroidDenominator fftOutput = (\<Sum>i\<leftarrow>[1..<fftSize div 2]. magnitude fftOutput i)"

definition centroidNumerator :: "real \<Rightarrow> real list \<Rightarrow> real" where
  "centroidNumerator rate fftOutput =
     (\<Sum>i\<leftarrow>[1..<fftSize div 2]. (real i * rate) / real fftSize * magnitude fftOutput i)"

definition centroid :: "real \<Rightarrow> real list \<Rightarrow> real" where
  "centroid rate fftOutput =
     (if centroidDenominator fftOutput \<noteq> 0
      then centroidNumerator rate fftOutput / centroidDenominator fftOutput
      else 0)"

text \<open>
  The log-normalized centroid of one frame,
  \<open>Math.log(1 + centroid) / Math.log(1 + sampleRate / 2)\<close>. \<open>None\<close> is \<open>NaN\<close>, the
  value for a frame that held an \<open>undefined\<close> sample. The sample rate of an
  \<open>AudioBuffer\<close> is positive; for a rate of 0 the quotient is \<open>0 / 0\<close>, and a rate
  that is not positive is not followed further than that: the value is taken as \<open>NaN\<close>.
\<close>

definition frameCentroid :: "real \<Rightarrow> real list option \<Rightarrow> real option" where
  "frameCentroid rate frame =
     (case frame of
        None \<Rightarrow> None
      | Some input \<Rightarrow>
          if rate \<le> 0 then None
          else Some (ln (1 + centroid rate (transform input)) / ln (1 + rate / 2)))"

text \<open>
  The frequency of the bin of largest magnitude of one frame, skipping bin 0:
  \<^verbatim>\<open>
  let maxMagnitude = 0
  let prominentBin = 0
  for (let i = 1; i < fftSize / 2; i++) {
    ...
    if (magnitude > maxMagnitude) { maxMagnitude = magnitude; prominentBin = i }
  }
  const prominentFrequency = (prominentBin * sampleRate) / fftSize;
  \<close>
  With an \<open>undefined\<close> sample every magnitude is \<open>NaN\<close>, no comparison succeeds and the
  bin stays 0.
\<close>

definition prominentBin :: "real list \<Rightarrow> nat" where
  "prominentBin fftOutput =
     snd (foldl (\<lambda>(maxMagnitude, bin) i.
                   if magnitude fftOutput i > maxMagnitude then (magnitude fftOutput i, i)
                   else (maxMagnitude, bin))
            (0, 0) [1..<fftSize div 2])"

definition frameProminentFrequency :: "real \<Rightarrow> real list option \<Rightarrow> real option" where
  "frameProminentFrequency rate frame =
     (case frame of
        None \<Rightarrow> Some 0
      | Some input \<Rightarrow> Some ((real (prominentBin (transform input)) * rate) / real fftSize))"

text \<open>
  The loop over the frames of a segment, \<open>feature\<close> being the value added for the frame
  at \<open>frameStart\<close>:
  \<^verbatim>\<open>
  for (let frameStart = segmentStart; frameStart + fftSize <= segmentEnd; frameStart += hopSize) {
    ...
    total += feature; framesCount++
  }
  \<close>
  The result is the sum and the number of frames; a \<open>NaN\<close> feature makes the sum \<open>NaN\<close>.
\<close>

function framesLoop ::
  "(nat \<Rightarrow> real option) \<Rightarrow> nat \<Rightarrow> nat \<Rightarrow> real option \<Rightarrow> nat \<Rightarrow> real option \<times> nat" where
  "framesLoop feature frameStart segmentEnd totalValue framesCount =
     (if frameStart + fftSize \<le> segmentEnd
      then framesLoop feature (frameStart + hopSize) segmentEnd
             (case (totalValue, feature frameStart) of
                (Some t, Some x) \<Rightarrow> Some (t + x)
              | _ \<Rightarrow> None)
             (framesCount + 1)
      else (totalValue, framesCount))"
  by pat_completeness auto
termination
  by (relation "measure (\<lambda>(feature, frameStart, segmentEnd, totalValue, framesCount).
                           segmentEnd - frameStart)")
     (auto simp: hopSize_def fftSize_def)

declare framesLoop.simps [simp del]

text \<open>
  The raw value of one segment. \<open>placeholder\<close> is the value of a segment shorter than the
  window, and of a segment without frames.
\<close>

definition segmentValue ::
  "(nat \<Rightarrow> real option) \<Rightarrow> real \<Rightarrow> nat \<Rightarrow> nat \<Rightarrow> nat \<Rightarrow> real option" where
  "segmentValue feature placeholder channelLength segmentSize segmentIndex =
     (let segmentStart = segmentIndex * segmentSize;
          segmentEnd = min (segmentStart + segmentSize) channelLength
      in if int segmentEnd - int segmentStart < int fftSize then Some placeholder
         else
           (case framesLoop feature segmentStart segmentEnd (Some 0) 0 of
              (totalValue, framesCount) \<Rightarrow>
                if framesCount > 0
                then (case totalValue of None \<Rightarrow> None | Some t \<Rightarrow> Some (t / real framesCount))
                else Some placeholder))"

text \<open>
  \<open>Math.pow\<close> on finite arguments. \<open>Math.pow(x, 0)\<close> is 1 for every \<open>x\<close>;
  \<open>Math.pow(0, p)\<close> is \<open>Infinity\<close> for \<open>p < 0\<close>; a negative base has a power only for an
  integral exponent.
\<close>

definition Math_pow :: "real \<Rightarrow> real \<Rightarrow> jsnum" where
  "Math_pow x p =
     (if p = 0 then Num 1
      else if x > 0 then Num (x powr p)
      else if x = 0 then (if p > 0 then Num 0 else PosInfinity)
      else if p = of_int \<lfloor>p\<rfloor> then Num (power_int x \<lfloor>p\<rfloor>)
      else NaN)"

text \<open>
  Min-max normalization of the raw values, which are not empty:
  \<^verbatim>\<open>
  const min = Math.min(...raw); const max = Math.max(...raw);
  const range = max - min > 0.001 ? max - min : 1;
  ... (raw[i] - min) / range
  \<close>
  If a raw value is \<open>NaN\<close>, so are \<open>min\<close> and \<open>max\<close>, the range is 1 and every
  normalized value is \<open>NaN\<close>: the result is \<open>None\<close>.
\<close>

definition valueRange :: "real list \<Rightarrow> real" where
  "valueRange raw =
     (if Max (set raw) - Min (set raw) > 0.001 then Max (set raw) - Min (set raw) else 1)"

definition normalizeValues :: "real option list \<Rightarrow> real list option" where
  "normalizeValues raw =
     (if None \<in> set raw then None
      else (let values = map the raw
            in Some (map (\<lambda>v. (v - Min (set values)) / valueRange values) values)))"

text \<open>
  The optional power transform of \<open>analyzeBrightness\<close>:
  \<^verbatim>\<open>
  if (this.options.normalizationPower != null) {
    normalizedValue = Math.pow(normalizedValue, this.options.normalizationPower);
  }
  \<close>
\<close>

definition powerTransform :: "real option \<Rightarrow> real \<Rightarrow> jsnum" where
  "powerTransform p normalizedValue =
     (case p of None \<Rightarrow> Num normalizedValue | Some q \<Rightarrow> Math_pow normalizedValue q)"

text \<open>
  \<open>analyzeBrightness\<close> writes \<open>this.brightnessData\<close>. If a raw value is \<open>NaN\<close>, every
  normalized value is \<open>NaN\<close>, and \<open>Math.pow(NaN, p)\<close> is \<open>NaN\<close> except that
  \<open>Math.pow(NaN, 0)\<close> is 1.
\<close>

definition analyzeBrightness :: "Renderer \<Rightarrow> AudioBuffer \<Rightarrow> nat \<Rightarrow> Renderer" where
  "analyzeBrightness this audioBuffer numberOfSegments =
     (if \<not> colorizeByBrightness (options this) then this\<lparr>brightnessData := []\<rparr>
      else
        (let channelData = getChannelData audioBuffer 0;
             segmentSize = length channelData div numberOfSegments;
             rawBrightnessValues =
               map (segmentValue
                      (\<lambda>frameStart. frameCentroid (sampleRate audioBuffer) (fftInput channelData frameStart))
                      0.5 (length channelData) segmentSize)
                   [0..<numberOfSegments]
         in if length rawBrightnessValues = 0 then this\<lparr>brightnessData := [Num 0.5]\<rparr>
            else
              (case normalizeValues rawBrightnessValues of
                 Some normalized \<Rightarrow>
                   this\<lparr>brightnessData :=
                          map (powerTransform (normalizationPower (options this))) normalized\<rparr>
               | None \<Rightarrow>
                   this\<lparr>brightnessData :=
                          replicate (length rawBrightnessValues)
                            (if normalizationPower (options this) = Some 0 then Num 1 else NaN)\<rparr>)))"

text \<open>\<open>analyzeProminentFrequency\<close> writes \<open>this.prominentFrequencyData\<close>.\<close>

definition analyzeProminentFrequency :: "Renderer \<Rightarrow> AudioBuffer \<Rightarrow> nat \<Rightarrow> Renderer" where
  "analyzeProminentFrequency this audioBuffer numberOfSegments =
     (let channelData = getChannelData audioBuffer 0;
          segmentSize = length channelData div numberOfSegments;
          rawProminentFrequencyValues =
            map (segmentValue
                   (\<lambda>frameStart. frameProminentFrequency (sampleRate audioBuffer)
                                    (fftInput channelData frameStart))
                   (sampleRate audioBuffer / 4) (length channelData) segmentSize)
                [0..<numberOfSegments]
      in if length rawProminentFrequencyValues = 0
         then this\<lparr>prominentFrequencyData := [Num 0.5]\<rparr>
         else
           (case normalizeValues rawProminentFrequencyValues of
              Some normalized \<Rightarrow> this\<lparr>prominentFrequencyData := map Num normalized\<rparr>
            | None \<Rightarrow>
                this\<lparr>prominentFrequencyData :=
                       replicate (length rawProminentFrequencyValues) NaN\<rparr>))"

section \<open>Color Mapper\<close>

subsection \<open>\<open>parseColor\<close>\<close>

text \<open>
  Strings are sequences of code units below 256. The three patterns of \<open>parseColor\<close>
  are searched with \<open>String.match\<close>, which is not anchored: the match may start at any
  position and the first position that matches wins. In each pattern a greedy repetition is
  followed by a character outside its class, so no backtracking inside a repetition can
  turn a failed match into a success and the matchers below read left to right.
\<close>

definition isDigit :: "char \<Rightarrow> bool" where \<comment> \<open>\<open>\d\<close>\<close>
  "isDigit c = (c \<in> set ''0123456789'')"

definition isSpace :: "char \<Rightarrow> bool" where \<comment> \<open>\<open>\s\<close> on code units below 256\<close>
  "isSpace c = ((of_char c :: nat) \<in> {9, 10, 11, 12, 13, 32, 160})"

definition isHex :: "char \<Rightarrow> bool" where \<comment> \<open>\<open>[0-9a-f]\<close> under the \<open>i\<close> flag\<close>
  "isHex c = (c \<in> set ''0123456789abcdefABCDEF'')"

definition hexVal :: "char \<Rightarrow> nat" where
  "hexVal c =
     (let n = (of_char c :: nat)
      in if isDigit c then n - 48 else if 97 \<le> n then n - 87 else n - 55)"

definition parseInt10 :: "string \<Rightarrow> nat" where \<comment> \<open>\<open>parseInt(s, 10)\<close> on a run of digits\<close>
  "parseInt10 ds = foldl (\<lambda>acc c. 10 * acc + ((of_char c :: nat) - 48)) 0 ds"

definition parseInt16 :: "string \<Rightarrow> nat" where \<comment> \<open>\<open>parseInt(s, 16)\<close> on a run of hex digits\<close>
  "parseInt16 ds = foldl (\<lambda>acc c. 16 * acc + hexVal c) 0 ds"

record rgb =
  r :: nat
  g :: nat
  b :: nat

text \<open>\<open>lit p s\<close>: the rest of \<open>s\<close> after the literal prefix \<open>p\<close>.\<close>

fun lit :: "string \<Rightarrow> string \<Rightarrow> string option" where
  "lit [] s = Some s"
| "lit (p # ps) [] = None"
| "lit (p # ps) (c # cs) = (if p = c then lit ps cs else None)"

text \<open>\<open>(\d+)\<close>: a non-empty greedy run of digits and the rest.\<close>

definition digits1 :: "string \<Rightarrow> (string \<times> string) option" where
  "digits1 s =
     (let ds = takeWhile isDigit s
      in if ds = [] then None else Some (ds, dropWhile isDigit s))"

text \<open>\<open>(?:,\s*[\d.]+)?\)\<close>: the optional alpha component and the closing parenthesis.\<close>

definition alphaClose :: "string \<Rightarrow> bool" where
  "alphaClose s =
     (case lit '')'' s of
        Some _ \<Rightarrow> True
      | None \<Rightarrow>
          (case lit '','' s of
             None \<Rightarrow> False
           | Some s1 \<Rightarrow>
               (let s2 = dropWhile isSpace s1;
                    a = takeWhile (\<lambda>c. isDigit c \<or> c = CHR ''.'') s2;
                    s3 = dropWhile (\<lambda>c. isDigit c \<or> c = CHR ''.'') s2
                in a \<noteq> [] \<and> lit '')'' s3 \<noteq> None)))"

text \<open>\<open>/rgba?\((\d+),\s*(\d+),\s*(\d+)(?:,\s*[\d.]+)?\)/\<close> at the start of \<open>s\<close>.\<close>

definition rgbAt :: "string \<Rightarrow> rgb option" where
  "rgbAt s =
     (case lit ''rgb'' s of
        None \<Rightarrow> None
      | Some s0 \<Rightarrow>
     (case lit ''('' (case lit ''a'' s0 of Some s0' \<Rightarrow> s0' | None \<Rightarrow> s0) of
        None \<Rightarrow> None
      | Some s1 \<Rightarrow>
     (case digits1 s1 of
        None \<Rightarrow> None
      | Some (d1, s2) \<Rightarrow>
     (case lit '','' s2 of
        None \<Rightarrow> None
      | Some s3 \<Rightarrow>
     (case digits1 (dropWhile isSpace s3) of
        None \<Rightarrow> None
      | Some (d2, s4) \<Rightarrow>
     (case lit '','' s4 of
        None \<Rightarrow> None
      | Some s5 \<Rightarrow>
     (case digits1 (dropWhile isSpace s5) of
        None \<Rightarrow> None
      | Some (d3, s6) \<Rightarrow>
          if alphaClose s6
          then Some \<lparr>r = parseInt10 d1, g = parseInt10 d2, b = parseInt10 d3\<rparr>
          else None)))))))"

text \<open>\<open>/#([0-9a-f]{2})([0-9a-f]{2})([0-9a-f]{2})/i\<close> at the start of \<open>s\<close>.\<close>

fun hexAt :: "string \<Rightarrow> rgb option" where
  "hexAt (h # r1 # r2 # g1 # g2 # b1 # b2 # rest) =
     (if h = CHR ''#'' \<and> isHex r1 \<and> isHex r2 \<and> isHex g1 \<and> isHex g2 \<and> isHex b1 \<and> isHex b2
      then Some \<lparr>r = parseInt16 [r1, r2], g = parseInt16 [g1, g2], b = parseInt16 [b1, b2]\<rparr>
      else None)"
| "hexAt _ = None"

text \<open>\<open>/#([0-9a-f])([0-9a-f])([0-9a-f])/i\<close> at the start of \<open>s\<close>; each digit is doubled.\<close>

fun shortHexAt :: "string \<Rightarrow> rgb option" where
  "shortHexAt (h # r1 # g1 # b1 # rest) =
     (if h = CHR ''#'' \<and> isHex r1 \<and> isHex g1 \<and> isHex b1
      then Some \<lparr>r = parseInt16 [r1, r1], g = parseInt16 [g1, g1], b = parseInt16 [b1, b1]\<rparr>
      else None)"
| "shortHexAt _ = None"

text \<open>\<open>color.match(re)\<close>: the match at the first position where the pattern matches.\<close>

fun match :: "(string \<Rightarrow> 'a option) \<Rightarrow> string \<Rightarrow> 'a option" where
  "match re [] = re []"
| "match re (c # cs) = (case re (c # cs) of Some m \<Rightarrow> Some m | None \<Rightarrow> match re cs)"

definition parseColor :: "string \<Rightarrow> rgb option" where
  "parseColor colorString =
     (case match rgbAt colorString of
        Some c \<Rightarrow> Some c
      | None \<Rightarrow>
          (case match hexAt colorString of
             Some c \<Rightarrow> Some c
           | None \<Rightarrow> match shortHexAt colorString))"

subsection \<open>\<open>getColorValue\<close>\<close>

text \<open>\<open>Math.max(0, Math.min(1, x))\<close>; \<open>NaN\<close> stays \<open>NaN\<close>, \<open>Infinity\<close> becomes 1,
  \<open>-Infinity\<close> becomes 0.\<close>

fun clamp01 :: "jsnum \<Rightarrow> real option" where
  "clamp01 (Num x) = Some (max 0 (min 1 x))"
| "clamp01 PosInfinity = Some 1"
| "clamp01 NegInfinity = Some 0"
| "clamp01 NaN = None"

text \<open>
  The search for the bracketing pair:
  \<^verbatim>\<open>
  let lowerIndex = 0;
  for (let i = 0; i < sortedStops.length - 1; i++) {
    if (normalizedValue >= sortedStops[i].stop && normalizedValue <= sortedStops[i + 1].stop) {
      lowerIndex = i; break;
    }
  }
  \<close>
  \<open>findLowerIndex v stops i\<close> runs the loop from index \<open>i\<close>, \<open>stops\<close> being the stops
  from that index on.
\<close>

fun findLowerIndex :: "real \<Rightarrow> ColorStop list \<Rightarrow> nat \<Rightarrow> nat" where
  "findLowerIndex v (s0 # s1 # rest) i =
     (if v \<ge> stop s0 \<and> v \<le> stop s1 then i else findLowerIndex v (s1 # rest) (i + 1))"
| "findLowerIndex v _ i = 0"

text \<open>Template literals print an integer (below \<open>10^21\<close> in magnitude) in decimal.\<close>

fun showNat :: "nat \<Rightarrow> string" where
  "showNat n =
     (if n < 10 then [char_of (48 + n)] else showNat (n div 10) @ [char_of (48 + n mod 10)])"

definition showInt :: "int \<Rightarrow> string" where
  "showInt i = (if i < 0 then CHR ''-'' # showNat (nat (- i)) else showNat (nat i))"

definition rgbString :: "int \<Rightarrow> int \<Rightarrow> int \<Rightarrow> string" where
  "rgbString rr gg bb = ''rgb('' @ showInt rr @ '', '' @ showInt gg @ '', '' @ showInt bb @ '')''"

text \<open>\<open>Math.round(lower + t * (upper - lower))\<close>: \<open>Math.round\<close> rounds half up.\<close>

definition interpolate :: "nat \<Rightarrow> nat \<Rightarrow> real \<Rightarrow> int" where
  "interpolate lower upper t = \<lfloor>real lower + t * (real upper - real lower) + 1 / 2\<rfloor>"

text \<open>
  \<open>getColorValue\<close>. A \<open>NaN\<close> value (an \<open>undefined\<close> array element) fails every
  comparison: the loop leaves \<open>lowerIndex = 0\<close>, neither end test returns, and the
  interpolation factor is \<open>NaN\<close> unless the first bracket is degenerate.
\<close>

definition getColorValue :: "jsnum \<Rightarrow> ColorStop list \<Rightarrow> string" where
  "getColorValue normalizedValue colorStops =
     (let sortedStops = sort_key stop colorStops
      in if length sortedStops = 0 then ''rgb(0, 0, 0)''
         else if length sortedStops = 1 then color (sortedStops ! 0)
         else
           (case clamp01 normalizedValue of
              Some v \<Rightarrow>
                (let lowerIndex = findLowerIndex v sortedStops 0
                 in if v \<le> stop (sortedStops ! 0) then color (sortedStops ! 0)
                    else if v \<ge> stop (sortedStops ! (length sortedStops - 1))
                    then color (sortedStops ! (length sortedStops - 1))
                    else
                      (let lowerStop = sortedStops ! lowerIndex;
                           upperStop = sortedStops ! (lowerIndex + 1);
                           range = stop upperStop - stop lowerStop;
                           normalizedPosition =
                             (if range \<noteq> 0 then (v - stop lowerStop) / range else 0)
                       in case (parseColor (color lowerStop), parseColor (color upperStop)) of
                            (Some lowerColor, Some upperColor) \<Rightarrow>
                              rgbString
                                (interpolate (r lowerColor) (r upperColor) normalizedPosition)
                                (interpolate (g lowerColor) (g upperColor) normalizedPosition)
                                (interpolate (b lowerColor) (b upperColor) normalizedPosition)
                          | _ \<Rightarrow> color lowerStop))
            | None \<Rightarrow>
                (let lowerStop = sortedStops ! 0;
                     upperStop = sortedStops ! 1;
                     range = stop upperStop - stop lowerStop
                 in case (parseColor (color lowerStop), parseColor (color upperStop)) of
                      (Some lowerColor, Some upperColor) \<Rightarrow>
                        if range \<noteq> 0 then ''rgb(NaN, NaN, NaN)''
                        else rgbString (int (r lowerColor)) (int (g lowerColor)) (int (b lowerColor))
                    | _ \<Rightarrow> color lowerStop)))"

section \<open>Waveform Rasterizer\<close>

text \<open>\<open>getPixelRatio\<close>: \<open>Math.max(1, window.devicePixelRatio || 1)\<close>.\<close>

definition getPixelRatio :: "real option \<Rightarrow> real" where
  "getPixelRatio devicePixelRatio = max 1 (orElse devicePixelRatio 1)"

text \<open>
  \<open>convertColorValues\<close>: a string or a gradient object is returned as it is, a missing
  color is the empty string; an array of fewer than two colors is its first color; a longer
  array becomes a vertical gradient over \<open>150 * (window.devicePixelRatio || 1)\<close> pixels
  (150 is the height of a new canvas) with its colors at equal distances.
\<close>

definition convertColorValues :: "real option \<Rightarrow> colorOption option \<Rightarrow> fillStyle" where
  "convertColorValues devicePixelRatio c =
     (case c of
        None \<Rightarrow> CssColor []
      | Some (ColorString str) \<Rightarrow> CssColor str
      | Some (ColorGradient gradientHeight stops) \<Rightarrow> CanvasGradient gradientHeight stops
      | Some (ColorArray cs) \<Rightarrow>
          if length cs < 2 then CssColor (case cs of [] \<Rightarrow> [] | c0 # _ \<Rightarrow> c0)
          else
            (let colorStopPercentage = 1 / (real (length cs) - 1)
             in CanvasGradient (150 * orElse devicePixelRatio 1)
                  (map (\<lambda>index. (real index * colorStopPercentage, cs ! index)) [0..<length cs])))"

text \<open>
  The analysis value of a bar or a segment:
  \<^verbatim>\<open>
  const analysisData = this.options.colorAnalysisType === 'prominentFrequency'
    ? this.prominentFrequencyData : this.brightnessData;
  const analysisValue = analysisData[index];
  \<close>
  An index outside the array reads \<open>undefined\<close>, which \<open>getColorValue\<close> turns into
  \<open>NaN\<close>.
\<close>

definition analysisValueAt :: "Renderer \<Rightarrow> jsnum \<Rightarrow> jsnum" where
  "analysisValueAt this index =
     (let analysisData =
            (if colorAnalysisType (options this) = Some ''prominentFrequency''
             then prominentFrequencyData this else brightnessData this)
      in case index of
           Num k \<Rightarrow>
             if 0 \<le> k \<and> k < real (length analysisData) \<and> k = of_int \<lfloor>k\<rfloor>
             then analysisData ! nat \<lfloor>k\<rfloor> else NaN
         | _ \<Rightarrow> NaN)"

text \<open>\<open>lineTo(x, y)\<close> with a possibly non-finite \<open>x\<close>.\<close>

definition lineTo :: "jsnum \<Rightarrow> real \<Rightarrow> Context2D \<Rightarrow> Context2D" where
  "lineTo x y ctx = (case x of Num p \<Rightarrow> call [LineTo p y] ctx | _ \<Rightarrow> ctx)"

text \<open>\<open>Math.round(v * halfHeight * vScale)\<close>.\<close>

definition scaledHeight :: "real \<Rightarrow> real \<Rightarrow> real \<Rightarrow> int" where
  "scaledHeight v halfHeight vScale = \<lfloor>v * halfHeight * vScale + 1 / 2\<rfloor>"

subsection \<open>\<open>renderBarWaveform\<close>\<close>

definition barWidthOf :: "'a WaveSurferOptions_scheme \<Rightarrow> real \<Rightarrow> real" where
  "barWidthOf opts pixelRatio =
     (case barWidth opts of
        Some w \<Rightarrow> if w \<noteq> 0 then w * pixelRatio else 1
      | None \<Rightarrow> 1)"

definition barGapOf :: "'a WaveSurferOptions_scheme \<Rightarrow> real \<Rightarrow> real" where
  "barGapOf opts pixelRatio =
     (if truthy (barGap opts) then the (barGap opts) * pixelRatio
      else if truthy (barWidth opts) then barWidthOf opts pixelRatio / 2
      else 0)"

text \<open>The variables of the loop over the samples.\<close>

record barVars =
  prevX :: jsnum
  maxTop :: real
  maxBottom :: real
  barCount :: nat
  barContext :: Context2D

text \<open>
  The rectangle of the bar collected in the loop variables:
  \<^verbatim>\<open>
  const topBarHeight = Math.round(maxTop * halfHeight * vScale)
  const bottomBarHeight = Math.round(maxBottom * halfHeight * vScale)
  const barHeight = topBarHeight + bottomBarHeight || 1
  let y = halfHeight - topBarHeight
  if (options.barAlign === 'top') { y = 0 }
  else if (options.barAlign === 'bottom') { y = height - barHeight }
  ctx[rectFn](prevX * (barWidth + barGap), y, barWidth, barHeight, barRadius)
  \<close>
  with \<open>rectFn = barRadius && 'roundRect' in ctx ? 'roundRect' : 'rect'\<close>.
\<close>

definition barRect ::
  "'a WaveSurferOptions_scheme \<Rightarrow> Context2D \<Rightarrow> real \<Rightarrow> real \<Rightarrow> barVars \<Rightarrow> command list" where
  "barRect opts ctx vScale pixelRatio v =
     (let height = real_of_int (canvasHeight ctx);
          halfHeight = height / 2;
          barW = barWidthOf opts pixelRatio;
          barG = barGapOf opts pixelRatio;
          radius = orElse (barRadius opts) 0;
          topBarHeight = scaledHeight (maxTop v) halfHeight vScale;
          bottomBarHeight = scaledHeight (maxBottom v) halfHeight vScale;
          barH = (if topBarHeight + bottomBarHeight = 0 then 1
                  else topBarHeight + bottomBarHeight);
          y = (if barAlign opts = Some ''top'' then 0
               else if barAlign opts = Some ''bottom'' then height - real_of_int barH
               else halfHeight - real_of_int topBarHeight)
      in case prevX v of
           Num p \<Rightarrow>
             [if radius \<noteq> 0 \<and> hasRoundRect ctx
              then RoundRect (p * (barW + barG)) y barW (real_of_int barH) radius
              else Rect (p * (barW + barG)) y barW (real_of_int barH)]
         | _ \<Rightarrow> [])"

text \<open>
  The color of the bar number \<open>barCount\<close>:
  \<^verbatim>\<open>
  const brightnessIndex = Math.min(
    this.brightnessData.length - 1,
    Math.floor((barCount / (width / (barWidth + barGap))) * this.brightnessData.length)
  )
  ...
  ctx.fillStyle = this.getColorValue(analysisValue, options.brightnessColors || []);
  \<close>
\<close>

definition barColor ::
  "Renderer \<Rightarrow> 'a WaveSurferOptions_scheme \<Rightarrow> Context2D \<Rightarrow> real \<Rightarrow> nat \<Rightarrow> fillStyle" where
  "barColor this opts ctx pixelRatio count =
     (let width = real_of_int (canvasWidth ctx);
          barW = barWidthOf opts pixelRatio;
          barG = barGapOf opts pixelRatio;
          brightnessIndex =
            jsMin (Num (real (length (brightnessData this)) - 1))
              (jsFloor (jsMul
                 (jsDiv (Num (real count)) (jsDiv (Num width) (Num (barW + barG))))
                 (Num (real (length (brightnessData this))))));
          analysisValue = analysisValueAt this brightnessIndex
      in CssColor (getColorValue analysisValue
                     (case brightnessColors opts of Some cs \<Rightarrow> cs | None \<Rightarrow> [])))"

text \<open>
  One iteration of the loops of \<open>renderBarWaveform\<close>, which run \<open>i\<close> from 0 to
  \<open>length\<close> inclusive. When \<open>x = Math.round(i * barIndexScale)\<close> exceeds \<open>prevX\<close> the
  bar collected so far is drawn: without colorization as a rectangle of the one path that
  is filled at the end, with colorization as a path of its own, filled with its color.
  \<open>barIndexScale\<close> is \<open>width / (barWidth + barGap) / length\<close>.
\<close>

definition barStep ::
  "Renderer \<Rightarrow> channels \<Rightarrow> 'a WaveSurferOptions_scheme \<Rightarrow> Context2D \<Rightarrow> real \<Rightarrow> real \<Rightarrow> bool \<Rightarrow>
   barVars \<Rightarrow> nat \<Rightarrow> barVars" where
  "barStep this channelData opts ctx vScale pixelRatio useColorization v i =
     (let width = real_of_int (canvasWidth ctx);
          barW = barWidthOf opts pixelRatio;
          barG = barGapOf opts pixelRatio;
          barIndexScale =
            jsDiv (jsDiv (Num width) (Num (barW + barG)))
              (Num (real (length (channel0 channelData))));
          x = jsRound (jsMul (Num (real i)) barIndexScale);
          v1 =
            (if jsGt x (prevX v)
             then
               (if useColorization
                then
                  (let c = barColor this opts ctx pixelRatio (barCount v)
                   in v\<lparr>prevX := x, maxTop := 0, maxBottom := 0,
                        barCount := barCount v + 1,
                        barContext :=
                          call ([BeginPath] @ barRect opts ctx vScale pixelRatio v
                                  @ [Fill c, ClosePath])
                            ((barContext v)\<lparr>fillStyle := c\<rparr>)\<rparr>)
                else v\<lparr>prevX := x, maxTop := 0, maxBottom := 0,
                       barContext := call (barRect opts ctx vScale pixelRatio v) (barContext v)\<rparr>)
             else v)
      in v1\<lparr>maxTop := max (maxTop v1) (magnitudeAt (channel0 channelData) i),
             maxBottom := max (maxBottom v1) (magnitudeAt (channel1 channelData) i)\<rparr>)"

definition renderBarWaveform ::
  "Renderer \<Rightarrow> channels \<Rightarrow> 'a WaveSurferOptions_scheme \<Rightarrow> Context2D \<Rightarrow> real \<Rightarrow> real \<Rightarrow> Context2D" where
  "renderBarWaveform this channelData opts ctx vScale pixelRatio =
     (let len = length (channel0 channelData);
          useColorization = (colorizeByBrightness opts \<and> length (brightnessData this) > 0);
          defaultFillStyle = fillStyle ctx;
          start = (\<lambda>c. \<lparr>prevX = Num 0, maxTop = 0, maxBottom = 0, barCount = 0, barContext = c\<rparr>)
      in if \<not> useColorization
         then
           (let c = barContext
                      (foldl (barStep this channelData opts ctx vScale pixelRatio False)
                         (start (call [BeginPath] ctx)) [0..<len + 1])
            in call [Fill (fillStyle c), ClosePath] c)
         else
           (barContext
              (foldl (barStep this channelData opts ctx vScale pixelRatio True)
                 (start ctx) [0..<len + 1]))\<lparr>fillStyle := defaultFillStyle\<rparr>)"

subsection \<open>\<open>renderLineWaveform\<close>\<close>

text \<open>
  One pass over the samples of a channel, drawing the envelope from \<open>prevX\<close>:
  \<^verbatim>\<open>
  if (x > prevX) {
    const h = Math.round(max * halfHeight * vScale) || 1
    ctx.lineTo(prevX, halfHeight + sign * h)
    prevX = x
    max = 0
  }
  const value = Math.abs(channel[i] || 0)
  if (value > max) max = value
  \<close>
  \<open>xOf i\<close> is the \<open>x\<close> of sample \<open>i\<close>; the loop variables are \<open>prevX\<close>, \<open>max\<close> and the
  context.
\<close>

definition envelopeStep ::
  "(int \<Rightarrow> jsnum) \<Rightarrow> real list \<Rightarrow> real \<Rightarrow> real \<Rightarrow> real \<Rightarrow>
   jsnum \<times> real \<times> Context2D \<Rightarrow> int \<Rightarrow> jsnum \<times> real \<times> Context2D" where
  "envelopeStep xOf channel halfHeight vScale sign v i =
     (case v of
        (lastX, maxV, ctx) \<Rightarrow>
          (let x = xOf i;
               value = (if 0 \<le> i then magnitudeAt channel (nat i) else 0)
           in if jsGt x lastX
              then
                (let h = (if scaledHeight maxV halfHeight vScale = 0 then 1
                          else scaledHeight maxV halfHeight vScale);
                     y = halfHeight + sign * real_of_int h
                 in (x, max 0 value, lineTo lastX y ctx))
              else (lastX, max maxV value, ctx)))"

text \<open>
  \<open>drawChannel(index)\<close> of the plain path: the whole channel, \<open>i\<close> from 0 to \<open>length\<close>
  inclusive, with \<open>x = Math.round(i * hScale)\<close> and \<open>hScale = ctx.canvas.width / length\<close>.
\<close>

definition drawChannel :: "channels \<Rightarrow> real \<Rightarrow> nat \<Rightarrow> Context2D \<Rightarrow> Context2D" where
  "drawChannel channelData vScale index ctx =
     (let channel = (if index = 0 then channel0 channelData else channel1 channelData);
          len = length channel;
          halfHeight = real_of_int (canvasHeight ctx) / 2;
          hScale = jsDiv (Num (real_of_int (canvasWidth ctx))) (Num (real len));
          xOf = (\<lambda>i. jsRound (jsMul (Num (real_of_int i)) hScale))
      in case foldl (envelopeStep xOf channel halfHeight vScale (if index = 0 then - 1 else 1))
                (Num 0, 0, call [MoveTo 0 halfHeight] ctx) [0..int len] of
           (lastX, maxV, c) \<Rightarrow> lineTo lastX halfHeight c)"

text \<open>
  The indices of the inner loops of the colorized path,
  \<open>for (let i = startIndex; i <= endIndex && i <= length; i++)\<close>. \<open>startIndex\<close> is a
  finite number there, since \<open>0 \<le> startX < width\<close>; \<open>endIndex\<close> is finite too, both
  are 0 for a channel without samples.
\<close>

definition indexRange :: "jsnum \<Rightarrow> jsnum \<Rightarrow> nat \<Rightarrow> int list" where
  "indexRange startIndex endIndex len =
     (case (startIndex, endIndex) of
        (Num a, Num e) \<Rightarrow> [\<lfloor>a\<rfloor>..min \<lfloor>e\<rfloor> (int len)]
      | (Num a, PosInfinity) \<Rightarrow> [\<lfloor>a\<rfloor>..int len]
      | _ \<Rightarrow> [])"

text \<open>One colored segment of the colorized path, from \<open>startX\<close> to \<open>endX\<close>.\<close>

definition drawSegment ::
  "Renderer \<Rightarrow> channels \<Rightarrow> 'a WaveSurferOptions_scheme \<Rightarrow> real \<Rightarrow> nat \<Rightarrow> real \<Rightarrow> real \<Rightarrow>
   Context2D \<Rightarrow> Context2D" where
  "drawSegment this channelData opts vScale segmentIndex startX endX ctx =
     (let width = real_of_int (canvasWidth ctx);
          halfHeight = real_of_int (canvasHeight ctx) / 2;
          analysisValue = analysisValueAt this (Num (real segmentIndex));
          segmentColor = CssColor (getColorValue analysisValue
                           (case brightnessColors opts of Some cs \<Rightarrow> cs | None \<Rightarrow> []));
          c1 = ctx\<lparr>fillStyle := segmentColor\<rparr>;
          len = length (channel0 channelData);
          hScale = jsDiv (Num width) (Num (real len));
          startIndex = jsFloor (jsDiv (Num startX) hScale);
          endIndex = jsCeil (jsDiv (Num endX) hScale);
          xOf = (\<lambda>i. jsMin (Num endX) (jsRound (jsMul (Num (real_of_int i)) hScale)));
          c2 = call [BeginPath, MoveTo startX halfHeight] c1;
          c3 = snd (snd (foldl (envelopeStep xOf (channel0 channelData) halfHeight vScale (- 1))
                           (Num startX, 0, c2) (indexRange startIndex endIndex len)));
          c4 = snd (snd (foldl (envelopeStep xOf (channel1 channelData) halfHeight vScale 1)
                           (Num startX, 0, c3) (indexRange startIndex endIndex len)))
      in call [LineTo endX halfHeight, Fill segmentColor, ClosePath] c4)"

text \<open>
  The loop over the segments, with its \<open>break\<close>:
  \<^verbatim>\<open>
  for (let segmentIndex = 0; segmentIndex < this.brightnessData.length; segmentIndex++) {
    const startX = segmentIndex * segmentWidth
    const endX = Math.min(width, (segmentIndex + 1) * segmentWidth)
    if (startX >= width) break
    ...
  }
  \<close>
\<close>

fun drawSegments ::
  "Renderer \<Rightarrow> channels \<Rightarrow> 'a WaveSurferOptions_scheme \<Rightarrow> real \<Rightarrow> real \<Rightarrow> nat list \<Rightarrow>
   Context2D \<Rightarrow> Context2D" where
  "drawSegments this channelData opts vScale segmentWidth [] ctx = ctx"
| "drawSegments this channelData opts vScale segmentWidth (segmentIndex # rest) ctx =
     (let width = real_of_int (canvasWidth ctx);
          startX = real segmentIndex * segmentWidth;
          endX = min width ((real segmentIndex + 1) * segmentWidth)
      in if startX \<ge> width then ctx
         else drawSegments this channelData opts vScale segmentWidth rest
                (drawSegment this channelData opts vScale segmentIndex startX endX ctx))"

definition renderLineWaveform ::
  "Renderer \<Rightarrow> channels \<Rightarrow> 'a WaveSurferOptions_scheme \<Rightarrow> Context2D \<Rightarrow> real \<Rightarrow> Context2D" where
  "renderLineWaveform this channelData opts ctx vScale =
     (let useColorization = (colorizeByBrightness opts \<and> length (brightnessData this) > 0)
      in if \<not> useColorization
         then
           (let c = drawChannel channelData vScale 1
                      (drawChannel channelData vScale 0 (call [BeginPath] ctx))
            in call [Fill (fillStyle c), ClosePath] c)
         else
           (let width = real_of_int (canvasWidth ctx);
                segmentWidth =
                  max 1 (real_of_int \<lceil>width / real (length (brightnessData this))\<rceil>);
                defaultFillStyle = fillStyle ctx
            in (drawSegments this channelData opts vScale segmentWidth
                  [0..<length (brightnessData this)] ctx)\<lparr>fillStyle := defaultFillStyle\<rparr>))"

subsection \<open>\<open>renderWaveform\<close>\<close>

text \<open>
  The vertical scale: \<open>options.barHeight || 1\<close>, or with \<open>options.normalize\<close> the
  inverse of the largest magnitude of the first channel (1 if that is 0).
\<close>

definition verticalScale :: "'a WaveSurferOptions_scheme \<Rightarrow> channels \<Rightarrow> real" where
  "verticalScale opts channelData =
     (if normalize opts
      then (let maxValue = foldl (\<lambda>m v. max m \<bar>v\<bar>) 0 (channel0 channelData)
            in if maxValue \<noteq> 0 then 1 / maxValue else 1)
      else orElse (barHeight opts) 1)"

definition renderWaveform ::
  "Renderer \<Rightarrow> real option \<Rightarrow> channels \<Rightarrow> 'a WaveSurferOptions_scheme \<Rightarrow> Context2D \<Rightarrow> Context2D" where
  "renderWaveform this devicePixelRatio channelData opts ctx =
     (let c = ctx\<lparr>fillStyle := convertColorValues devicePixelRatio (waveColor opts)\<rparr>
      in case renderFunction opts of
           Some f \<Rightarrow> f channelData c
         | None \<Rightarrow>
             (let vScale = verticalScale opts channelData
              in if truthy (barWidth opts) \<or> truthy (barGap opts)
                    \<or> (case barAlign opts of Some a \<Rightarrow> a \<noteq> [] | None \<Rightarrow> False)
                 then renderBarWaveform this channelData opts c vScale (getPixelRatio devicePixelRatio)
                 else renderLineWaveform this channelData opts c vScale))"

section \<open>Tile Manager\<close>

text \<open>
  What the renderer reads from the browser: \<open>window.devicePixelRatio\<close>, whether a 2D
  context has \<open>roundRect\<close>, and \<open>clientWidth\<close> and \<open>scrollLeft\<close> of the scroll
  container.
\<close>

record Host =
  devicePixelRatio :: "real option"
  roundRect :: bool
  clientWidth :: real
  scrollLeft :: real

text \<open>
  A canvas element: its style, and its 2D context, which holds the \<open>width\<close> and
  \<open>height\<close> attributes.
\<close>

record Canvas =
  styleWidth :: real
  styleHeight :: real
  styleLeft :: int
  drawing :: Context2D

text \<open>
  The state of one \<open>renderMultiCanvas\<close> call and of its scroll listener: the keys of
  \<open>drawnIndexes\<close> (its values are only ever \<open>true\<close>) and the children of the two
  containers, in document order.
\<close>

record Tiles =
  drawnIndexes :: "int set"
  canvasContainer :: "Canvas list"
  progressContainer :: "Canvas list"

definition MAX_CANVAS_WIDTH :: real where
  "MAX_CANVAS_WIDTH = 8000"

definition MAX_NODES :: nat where
  "MAX_NODES = 10"

text \<open>\<open>Array.prototype.slice(start, end)\<close>; a negative index counts from the end.\<close>

definition slice :: "'a list \<Rightarrow> int \<Rightarrow> int \<Rightarrow> 'a list" where
  "slice xs start finish =
     (let n = int (length xs);
          lo = (if start < 0 then max 0 (n + start) else min start n);
          hi = (if finish < 0 then max 0 (n + finish) else min finish n)
      in take (nat (hi - lo)) (drop (nat lo) xs))"

text \<open>\<open>a % b\<close> for \<open>b \<noteq> 0\<close>: the remainder has the sign of the dividend.\<close>

definition jsRem :: "real \<Rightarrow> real \<Rightarrow> real" where
  "jsRem a c =
     a - c * real_of_int (if a / c \<ge> 0 then \<lfloor>a / c\<rfloor> else \<lceil>a / c\<rceil>)"

subsection \<open>\<open>renderSingleCanvas\<close>\<close>

definition renderSingleCanvas ::
  "Renderer \<Rightarrow> Host \<Rightarrow> channels \<Rightarrow> 'a WaveSurferOptions_scheme \<Rightarrow> real \<Rightarrow> real \<Rightarrow> real \<Rightarrow>
   Tiles \<Rightarrow> Tiles" where
  "renderSingleCanvas this host data opts width height offset tiles =
     (let pixelRatio = getPixelRatio (devicePixelRatio host);
          blank = \<lparr>canvasWidth = \<lfloor>width * pixelRatio + 1 / 2\<rfloor>,
                   canvasHeight = \<lfloor>height * pixelRatio + 1 / 2\<rfloor>,
                   hasRoundRect = roundRect host,
                   fillStyle = CssColor ''#000000'',
                   globalCompositeOperation = ''source-over'',
                   commands = []\<rparr>;
          ctx = renderWaveform this (devicePixelRatio host) data opts blank;
          canvas = \<lparr>styleWidth = width, styleHeight = height,
                    styleLeft = \<lfloor>offset + 1 / 2\<rfloor>, drawing = ctx\<rparr>;
          tiles1 = tiles\<lparr>canvasContainer := canvasContainer tiles @ [canvas]\<rparr>
      in if canvasWidth ctx > 0 \<and> canvasHeight ctx > 0
         then
           (let progressColor = convertColorValues (devicePixelRatio host) (progressColor opts);
                progressCtx =
                  call [DrawImage (commands ctx),
                        FillRect progressColor ''source-in'' 0 0
                          (real_of_int (canvasWidth ctx)) (real_of_int (canvasHeight ctx))]
                    (blank\<lparr>globalCompositeOperation := ''source-in'',
                            fillStyle := progressColor\<rparr>);
                progressCanvas = canvas\<lparr>drawing := progressCtx\<rparr>
            in tiles1\<lparr>progressContainer := progressContainer tiles1 @ [progressCanvas]\<rparr>)
         else tiles1)"

subsection \<open>The tiling\<close>

text \<open>
  The constants that the closures \<open>draw\<close> and \<open>clearCanvases\<close> and the scroll listener
  of \<open>renderMultiCanvas\<close> capture.
\<close>

record Tiling =
  totalWidth :: real
  singleCanvasWidth :: real
  numCanvases :: int

text \<open>
  The width of a tile, adjusted to whole bars:
  \<^verbatim>\<open>
  let singleCanvasWidth = Math.min(Renderer.MAX_CANVAS_WIDTH, clientWidth, totalWidth)
  if (singleCanvasWidth === 0) return
  if (options.barWidth || options.barGap) {
    const barWidth = options.barWidth || 0.5
    const barGap = options.barGap || barWidth / 2
    const totalBarWidth = barWidth + barGap
    if (singleCanvasWidth % totalBarWidth !== 0) {
      singleCanvasWidth = Math.floor(singleCanvasWidth / totalBarWidth) * totalBarWidth
    }
  }
  const numCanvases = Math.ceil(totalWidth / singleCanvasWidth)
  \<close>
  \<open>NothingToRender\<close> is the early return. \<open>Degenerate\<close> stands for the cases in which
  the adjusted width is 0 (a tile narrower than one bar: \<open>numCanvases\<close> is \<open>Infinity\<close>,
  and the loop over all tiles of a waveform that does not scroll never ends) or \<open>NaN\<close>
  (\<open>totalBarWidth = 0\<close>), or a width is negative; they are not followed further.
\<close>

datatype tiling = NothingToRender | Degenerate | Tiled Tiling

definition adjustedWidth :: "'a WaveSurferOptions_scheme \<Rightarrow> real \<Rightarrow> real option" where
  "adjustedWidth opts w =
     (if truthy (barWidth opts) \<or> truthy (barGap opts)
      then
        (let barW = orElse (barWidth opts) 0.5;
             barG = orElse (barGap opts) (barW / 2);
             totalBarWidth = barW + barG
         in if totalBarWidth = 0 then None
            else if jsRem w totalBarWidth \<noteq> 0
            then Some (real_of_int \<lfloor>w / totalBarWidth\<rfloor> * totalBarWidth)
            else Some w)
      else Some w)"

definition tilingOf :: "Host \<Rightarrow> 'a WaveSurferOptions_scheme \<Rightarrow> real \<Rightarrow> tiling" where
  "tilingOf host opts width =
     (let pixelRatio = getPixelRatio (devicePixelRatio host);
          total = width / pixelRatio;
          w = min MAX_CANVAS_WIDTH (min (clientWidth host) total)
      in if w = 0 then NothingToRender
         else
           (case adjustedWidth opts w of
              None \<Rightarrow> Degenerate
            | Some w' \<Rightarrow>
                if w' \<le> 0 \<or> total \<le> 0 then Degenerate
                else Tiled \<lparr>totalWidth = total, singleCanvasWidth = w',
                            numCanvases = \<lceil>total / w'\<rceil>\<rparr>))"

subsection \<open>\<open>draw\<close>, \<open>clearCanvases\<close> and the scroll listener\<close>

definition tileOffset :: "Tiling \<Rightarrow> int \<Rightarrow> real" where \<comment> \<open>\<open>offset\<close> of \<open>draw\<close>\<close>
  "tileOffset tg index = real_of_int index * singleCanvasWidth tg"

definition clampedWidth :: "Tiling \<Rightarrow> int \<Rightarrow> real" where \<comment> \<open>\<open>clampedWidth\<close> of \<open>draw\<close>\<close>
  "clampedWidth tg index = min (totalWidth tg - tileOffset tg index) (singleCanvasWidth tg)"

text \<open>The part of a channel that a tile shows.\<close>

definition tileSlice :: "Tiling \<Rightarrow> int \<Rightarrow> real list \<Rightarrow> real list" where
  "tileSlice tg index channel =
     (let start = \<lfloor>tileOffset tg index / totalWidth tg * real (length channel)\<rfloor>;
          finish = \<lfloor>(tileOffset tg index + clampedWidth tg index) / totalWidth tg
                      * real (length channel)\<rfloor>
      in slice channel start finish)"

fun tileData :: "Tiling \<Rightarrow> int \<Rightarrow> channels \<Rightarrow> channels" where
  "tileData tg index (Mono c) = Mono (tileSlice tg index c)"
| "tileData tg index (Stereo c d) = Stereo (tileSlice tg index c) (tileSlice tg index d)"

text \<open>
  \<^verbatim>\<open>
  const draw = (index: number) => {
    if (index < 0 || index >= numCanvases) return
    if (drawnIndexes[index]) return
    drawnIndexes[index] = true
    const offset = index * singleCanvasWidth
    const clampedWidth = Math.min(totalWidth - offset, singleCanvasWidth)
    if (clampedWidth <= 0) return
    const data = channelData.map(...)
    this.renderSingleCanvas(data, options, clampedWidth, height, offset, canvasContainer, progressContainer)
  }
  \<close>
\<close>

definition draw ::
  "Renderer \<Rightarrow> Host \<Rightarrow> channels \<Rightarrow> 'a WaveSurferOptions_scheme \<Rightarrow> real \<Rightarrow> Tiling \<Rightarrow> int \<Rightarrow>
   Tiles \<Rightarrow> Tiles" where
  "draw this host channelData opts height tg index tiles =
     (if index < 0 \<or> index \<ge> numCanvases tg then tiles
      else if index \<in> drawnIndexes tiles then tiles
      else
        (let tiles1 = tiles\<lparr>drawnIndexes := insert index (drawnIndexes tiles)\<rparr>
         in if clampedWidth tg index \<le> 0 then tiles1
            else renderSingleCanvas this host (tileData tg index channelData) opts
                   (clampedWidth tg index) height (tileOffset tg index) tiles1))"

text \<open>
  \<^verbatim>\<open>
  const clearCanvases = () => {
    if (Object.keys(drawnIndexes).length > Renderer.MAX_NODES) {
      canvasContainer.innerHTML = ''
      progressContainer.innerHTML = ''
      drawnIndexes = {}
    }
  }
  \<close>
\<close>

definition clearCanvases :: "Tiles \<Rightarrow> Tiles" where
  "clearCanvases tiles =
     (if card (drawnIndexes tiles) > MAX_NODES
      then \<lparr>drawnIndexes = {}, canvasContainer = [], progressContainer = []\<rparr>
      else tiles)"

text \<open>The three tiles around \<open>index\<close>, drawn in the order of the source.\<close>

definition drawAround ::
  "Renderer \<Rightarrow> Host \<Rightarrow> channels \<Rightarrow> 'a WaveSurferOptions_scheme \<Rightarrow> real \<Rightarrow> Tiling \<Rightarrow> int \<Rightarrow>
   Tiles \<Rightarrow> Tiles" where
  "drawAround this host channelData opts height tg index tiles =
     draw this host channelData opts height tg (index + 1)
       (draw this host channelData opts height tg index
          (draw this host channelData opts height tg (index - 1) tiles))"

text \<open>
  The scroll listener; \<open>host\<close> is the browser state when the event is handled.
  \<^verbatim>\<open>
  const { scrollLeft } = this.scrollContainer
  const canvasIndex = Math.floor((scrollLeft / totalWidth) * numCanvases)
  clearCanvases()
  draw(canvasIndex - 1)
  draw(canvasIndex)
  draw(canvasIndex + 1)
  \<close>
\<close>

definition canvasIndexAt :: "Tiling \<Rightarrow> real \<Rightarrow> int" where
  "canvasIndexAt tg left = \<lfloor>left / totalWidth tg * real_of_int (numCanvases tg)\<rfloor>"

definition onScroll ::
  "Renderer \<Rightarrow> Host \<Rightarrow> channels \<Rightarrow> 'a WaveSurferOptions_scheme \<Rightarrow> real \<Rightarrow> Tiling \<Rightarrow>
   Tiles \<Rightarrow> Tiles" where
  "onScroll this host channelData opts height tg tiles =
     drawAround this host channelData opts height tg (canvasIndexAt tg (scrollLeft host))
       (clearCanvases tiles)"

subsection \<open>\<open>renderMultiCanvas\<close>\<close>

text \<open>
  The outcome of \<open>renderMultiCanvas\<close> on two new, empty containers: nothing was
  rendered, or the tiles drawn at once, with the tiling if a scroll listener was subscribed
  (\<open>numCanvases > 1\<close> in the scrollable case).
\<close>

datatype rendering = Nothing | Unfollowed | Drawn Tiles "Tiling option"

definition renderMultiCanvas ::
  "Renderer \<Rightarrow> Host \<Rightarrow> channels \<Rightarrow> 'a WaveSurferOptions_scheme \<Rightarrow> real \<Rightarrow> real \<Rightarrow> rendering" where
  "renderMultiCanvas this host channelData opts width height =
     (case tilingOf host opts width of
        NothingToRender \<Rightarrow> Nothing
      | Degenerate \<Rightarrow> Unfollowed
      | Tiled tg \<Rightarrow>
          (let none = \<lparr>drawnIndexes = {}, canvasContainer = [], progressContainer = []\<rparr>
           in if \<not> isScrollable this
              then Drawn (foldl (\<lambda>tiles i. draw this host channelData opts height tg i tiles)
                            none [0..numCanvases tg - 1]) None
              else
                (let startCanvas = canvasIndexAt tg (scrollLeft host)
                 in Drawn (drawAround this host channelData opts height tg startCanvas none)
                      (if numCanvases tg > 1 then Some tg else None))))"

section \<open>\<open>render\<close>\<close>

text \<open>\<open>AudioBuffer.duration\<close>, in seconds.\<close>

definition duration :: "AudioBuffer \<Rightarrow> real" where
  "duration audioBuffer = real (audioLength audioBuffer) / sampleRate audioBuffer"

text \<open>
  \<open>render\<close>, up to \<open>this.emit('render')\<close>: the statements that write \<open>isScrollable\<close>,
  \<open>brightnessData\<close> and \<open>prominentFrequencyData\<close>. The result is the renderer and the
  \<open>width\<close> handed to \<open>renderChannel\<close>. What follows in \<open>render\<close> draws the channels
  with the functions above, which read the renderer and write none of its fields.
\<close>

definition render :: "Renderer \<Rightarrow> Host \<Rightarrow> AudioBuffer \<Rightarrow> Renderer \<times> real" where
  "render this host audioData =
     (let pixelRatio = getPixelRatio (devicePixelRatio host);
          parentWidth = clientWidth host;
          rate = orElse (audioRate (options this)) 1;
          scaledDuration = duration audioData / rate;
          scrollWidth = real_of_int \<lceil>scaledDuration * orElse (minPxPerSec (options this)) 0\<rceil>;
          this1 = this\<lparr>isScrollable := scrollWidth > parentWidth\<rparr>;
          useParentWidth = (fillParent (options this) \<and> \<not> isScrollable this1);
          width = (if useParentWidth then parentWidth else scrollWidth) * pixelRatio
      in if colorizeByBrightness (options this1)
         then
           (let n = nat (finalNumberOfSegments (audioLength audioData) width pixelRatio)
            in if colorAnalysisType (options this1) = Some ''prominentFrequency''
               then ((analyzeProminentFrequency this1 audioData n)\<lparr>brightnessData := []\<rparr>, width)
               else ((analyzeBrightness this1 audioData n)\<lparr>prominentFrequencyData := []\<rparr>, width))
         else (this1\<lparr>brightnessData := [], prominentFrequencyData := []\<rparr>, width))"

text \<open>
  The spec's fallback, for comparison with the code: of the two stops of the bracketing
  pair, the one whose position is closest to the value.
\<close>

definition nearerBracketingStop :: "real \<Rightarrow> ColorStop \<Rightarrow> ColorStop \<Rightarrow> ColorStop" where
  "nearerBracketingStop v a c = (if \<bar>v - stop a\<bar> \<le> \<bar>stop c - v\<bar> then a else c)"

abbreviation redBlue :: "ColorStop list" where
  "redBlue \<equiv> [\<lparr>stop = 0, color = ''red''\<rparr>, \<lparr>stop = 1, color = ''blue''\<rparr>]"

abbreviation blackWhite :: "ColorStop list" where
  "blackWhite \<equiv> [\<lparr>stop = 0, color = ''rgb(0,0,0)''\<rparr>, \<lparr>stop = 1, color = ''rgb(255,255,255)''\<rparr>]"


text \<open>Options with colorization enabled, the given analysis type and the given power.\<close>

abbreviation colorized :: "string option \<Rightarrow> real option \<Rightarrow> WaveSurferOptions" where
  "colorized analysisType p \<equiv>
     \<lparr>colorizeByBrightness = True, colorAnalysisType = analysisType,
      brightnessColors = Some blackWhite, normalizationPower = p,
      barWidth = None, barGap = None, barRadius = None, barAlign = None, barHeight = None,
      normalize = False, waveColor = Some (ColorString ''#999''),
      progressColor = Some (ColorString ''#555''), renderFunction = None,
      minPxPerSec = None, audioRate = None, fillParent = True\<rparr>"

text \<open>A renderer with the given options, before the first analysis.\<close>

abbreviation renderer :: "WaveSurferOptions \<Rightarrow> Renderer" where
  "renderer opts \<equiv>
     \<lparr>options = opts, isScrollable = False, brightnessData = [], prominentFrequencyData = []\<rparr>"

text \<open>
  A canvas of 4 by 10 pixels whose fill style is \<open>#999\<close>, a renderer whose analysis gave
  the values 0 and 1, and a browser with a viewport of the given width, scrolled to the
  given offset.
\<close>

abbreviation smallCanvas :: Context2D where
  "smallCanvas \<equiv>
     \<lparr>canvasWidth = 4, canvasHeight = 10, hasRoundRect = True, fillStyle = CssColor ''#999'',
      globalCompositeOperation = ''source-over'', commands = []\<rparr>"

abbreviation analysed :: Renderer where
  "analysed \<equiv> (renderer (colorized None None))\<lparr>brightnessData := [Num 0, Num 1]\<rparr>"

abbreviation browser :: "real \<Rightarrow> real \<Rightarrow> Host" where
  "browser viewport left \<equiv>
     \<lparr>devicePixelRatio = None, roundRect = True, clientWidth = viewport, scrollLeft = left\<rparr>"


definition tileGeometry :: "Tiling \<Rightarrow> int \<Rightarrow> int \<times> real" where
  "tileGeometry tg index = (\<lfloor>tileOffset tg index + 1 / 2\<rfloor>, clampedWidth tg index)"

definition geometry :: "Canvas \<Rightarrow> int \<times> real" where
  "geometry c = (styleLeft c, styleWidth c)"

text \<open>The tiles and the listener of a rendering.\<close>

fun tilesOf :: "rendering \<Rightarrow> Tiles" where
  "tilesOf (Drawn tiles listener) = tiles"
| "tilesOf _ = \<lparr>drawnIndexes = {}, canvasContainer = [], progressContainer = []\<rparr>"


text \<open>
  A scrollable renderer, the tilings of 80000 and of 160000 pixels in tiles of 8000, and
  the tiles of a waveform of 160000 pixels after the first rendering at offset 8000 and
  three scroll events.
\<close>

abbreviation scrolling :: Renderer where
  "scrolling \<equiv> (renderer (colorized None None))\<lparr>isScrollable := True\<rparr>"


abbreviation twentyTiles :: Tiling where
  "twentyTiles \<equiv> \<lparr>totalWidth = 160000, singleCanvasWidth = 8000, numCanvases = 20\<rparr>"

abbreviation scrolledThrice :: Tiles where
  "scrolledThrice \<equiv>
     onScroll scrolling (browser 8000 80000) (Mono [0, 1 / 2, - 1, 1 / 2]) (colorized None None) 128 twentyTiles
       (onScroll scrolling (browser 8000 56000) (Mono [0, 1 / 2, - 1, 1 / 2]) (colorized None None) 128 twentyTiles
          (onScroll scrolling (browser 8000 32000) (Mono [0, 1 / 2, - 1, 1 / 2]) (colorized None None) 128 twentyTiles
             (tilesOf (renderMultiCanvas scrolling (browser 8000 8000) (Mono [0, 1 / 2, - 1, 1 / 2])
                         (colorized None None) 160000 128))))"

section \<open>Properties\<close>

subsection \<open>Color Mapper\<close>

lemma findLowerIndex_first:
  "i + 1 < length ss \<Longrightarrow> stop (ss ! i) \<le> v \<Longrightarrow> v \<le> stop (ss ! (i + 1)) \<Longrightarrow>
   (\<forall>j<i. \<not> (stop (ss ! j) \<le> v \<and> v \<le> stop (ss ! (j + 1)))) \<Longrightarrow>
   findLowerIndex v ss k = k + i"
proof (induction v ss k arbitrary: i rule: findLowerIndex.induct)
  case (1 v s0 s1 rest k)
  show ?case
  proof (cases i)
    case 0
    with "1.prems" show ?thesis by simp
  next
    case (Suc i')
    have nb: "\<not> (stop s0 \<le> v \<and> v \<le> stop s1)"
      using "1.prems"(4) Suc by force
    have "findLowerIndex v (s1 # rest) (k + 1) = (k + 1) + i'"
    proof (rule "1.IH")
      show "\<not> (stop s0 \<le> v \<and> v \<le> stop s1)" using nb .
      show "i' + 1 < length (s1 # rest)" using "1.prems"(1) Suc by simp
      show "stop ((s1 # rest) ! i') \<le> v" using "1.prems"(2) Suc by simp
      show "v \<le> stop ((s1 # rest) ! (i' + 1))" using "1.prems"(3) Suc by simp
      show "\<forall>j<i'. \<not> (stop ((s1 # rest) ! j) \<le> v \<and> v \<le> stop ((s1 # rest) ! (j + 1)))"
        using "1.prems"(4) Suc by force
    qed
    with nb Suc show ?thesis by simp
  qed
qed simp_all

lemma getColorValue_bracket:
  assumes ss: "ss = sort_key stop colorStops"
    and v: "clamp01 x = Some v"
    and i: "i + 1 < length ss"
    and lo: "stop (ss ! i) \<le> v" and hi: "v \<le> stop (ss ! (i + 1))"
    and first: "\<forall>j<i. \<not> (stop (ss ! j) \<le> v \<and> v \<le> stop (ss ! (j + 1)))"
    and above: "stop (ss ! 0) < v" and below: "v < stop (ss ! (length ss - 1))"
  shows "getColorValue x colorStops =
     (case (parseColor (color (ss ! i)), parseColor (color (ss ! (i + 1)))) of
        (Some lowerColor, Some upperColor) \<Rightarrow>
          (let t = (if stop (ss ! (i + 1)) - stop (ss ! i) \<noteq> 0
                    then (v - stop (ss ! i)) / (stop (ss ! (i + 1)) - stop (ss ! i)) else 0)
           in rgbString (interpolate (r lowerColor) (r upperColor) t)
                (interpolate (g lowerColor) (g upperColor) t)
                (interpolate (b lowerColor) (b upperColor) t))
      | _ \<Rightarrow> color (ss ! i))"
proof -
  have idx: "findLowerIndex v ss 0 = i"
    using findLowerIndex_first [OF i lo hi first, of 0] by simp
  have len: "length ss \<noteq> 0" "length ss \<noteq> 1" using i by auto
  have na: "\<not> v \<le> stop (ss ! 0)" using above by simp
  have nb: "\<not> v \<ge> stop (ss ! (length ss - 1))" using below by simp
  show ?thesis
    unfolding getColorValue_def ss [symmetric] Let_def
    using len na nb idx v
    by (simp split: option.splits prod.splits)
qed



text \<open>
  C3, as stated: when a stop of the bracketing pair does not parse, the result is the
  literal color of the nearer stop of the pair. With the stops \<open>red\<close> at 0 and \<open>blue\<close>
  at 1, neither of which \<open>parseColor\<close> recognizes, and the value 0.75, the nearer stop is
  \<open>blue\<close>, and the code returns \<open>red\<close>.
\<close>

theorem nearer_stop_counterexample:
  "parseColor ''red'' = None \<and> parseColor ''blue'' = None
   \<and> color (nearerBracketingStop (3 / 4) (redBlue ! 0) (redBlue ! 1)) = ''blue''
   \<and> getColorValue (Num (3 / 4)) redBlue = ''red''
   \<and> getColorValue (Num (3 / 4)) redBlue
       \<noteq> color (nearerBracketingStop (3 / 4) (redBlue ! 0) (redBlue ! 1))"
  by code_simp

text \<open>
  C3, amended: for every value whose clamped value \<open>v\<close> lies strictly between the first
  and the last stop position, if a stop of the bracketing pair (the first pair, in sorted
  order, with \<open>a.position \<le> v \<le> b.position\<close>) has a color that \<open>parseColor\<close> does not
  recognize, \<open>getColorValue\<close> returns the literal color string of the lower stop of that
  pair.
\<close>

theorem unparsable_fallback:
  assumes "ss = sort_key stop colorStops"
    and "clamp01 x = Some v"
    and "i + 1 < length ss"
    and "stop (ss ! i) \<le> v" and "v \<le> stop (ss ! (i + 1))"
    and "\<forall>j<i. \<not> (stop (ss ! j) \<le> v \<and> v \<le> stop (ss ! (j + 1)))"
    and "stop (ss ! 0) < v" and "v < stop (ss ! (length ss - 1))"
    and "parseColor (color (ss ! i)) = None \<or> parseColor (color (ss ! (i + 1))) = None"
  shows "getColorValue x colorStops = color (ss ! i)"
  using getColorValue_bracket [OF assms(1-8)] assms(9)
  by (auto split: option.splits)

theorem unparsable_fallback_witness:
  "clamp01 (Num (3 / 4)) = Some (3 / 4)
   \<and> 0 + 1 < length (sort_key stop redBlue)
   \<and> stop (sort_key stop redBlue ! 0) \<le> 3 / 4
   \<and> 3 / 4 \<le> stop (sort_key stop redBlue ! (0 + 1))
   \<and> stop (sort_key stop redBlue ! 0) < 3 / 4
   \<and> 3 / 4 < stop (sort_key stop redBlue ! (length (sort_key stop redBlue) - 1))
   \<and> (parseColor (color (sort_key stop redBlue ! 0)) = None
        \<or> parseColor (color (sort_key stop redBlue ! (0 + 1))) = None)
   \<and> getColorValue (Num (3 / 4)) redBlue = color (sort_key stop redBlue ! 0)"
proof -
  have h2: "clamp01 (Num (3 / 4)) = Some (3 / 4)" by simp
  have h3: "0 + 1 < length (sort_key stop redBlue)" by simp
  have h4: "stop (sort_key stop redBlue ! 0) \<le> 3 / 4" by simp
  have h5: "3 / 4 \<le> stop (sort_key stop redBlue ! (0 + 1))" by simp
  have h6: "\<forall>j<0::nat. \<not> (stop (sort_key stop redBlue ! j) \<le> 3 / 4
              \<and> 3 / 4 \<le> stop (sort_key stop redBlue ! (j + 1)))" by simp
  have h7: "stop (sort_key stop redBlue ! 0) < 3 / 4" by simp
  have h8: "3 / 4 < stop (sort_key stop redBlue ! (length (sort_key stop redBlue) - 1))" by simp
  have h9: "parseColor (color (sort_key stop redBlue ! 0)) = None
            \<or> parseColor (color (sort_key stop redBlue ! (0 + 1))) = None" by code_simp
  show ?thesis
    using unparsable_fallback [OF refl h2 h3 h4 h5 h6 h7 h8 h9] h2 h3 h4 h5 h7 h8 h9
    by blast
qed



subsection \<open>Spectral Analyzer\<close>













subsection \<open>The flat signal\<close>

lemma concat_const_pairs: "concat (map (\<lambda>i. [x, y]) xs) = concat (replicate (length xs) [x, y])"
  by (induction xs) simp_all

lemma concat_zero_pairs: "concat (replicate n [0::real, 0]) = replicate (2 * n) 0"
  by (induction n) simp_all

lemma fftInput_zero:
  "fs + fftSize \<le> n \<Longrightarrow> fftInput (replicate n 0) fs = Some (replicate (2 * fftSize) 0)"
proof -
  assume a: "fs + fftSize \<le> n"
  have m: "map (\<lambda>i. [replicate n (0::real) ! (fs + i) * windowValue i, 0]) [0..<fftSize]
        = map (\<lambda>i. [0, 0]) [0..<fftSize]"
    using a by (intro map_cong) simp_all
  show ?thesis
    unfolding fftInput_def m using a by (simp add: concat_const_pairs concat_zero_pairs)
qed

lemma transform_zero: "transform (replicate (2 * fftSize) 0) = replicate (2 * fftSize) 0"
proof -
  have "map (\<lambda>k.
       [(\<Sum>n<fftSize. (replicate (2 * fftSize) (0::real) ! (2 * n) * cos (2 * pi * real k * real n / real fftSize)
                      + replicate (2 * fftSize) 0 ! (2 * n + 1) * sin (2 * pi * real k * real n / real fftSize))),
        (\<Sum>n<fftSize. (replicate (2 * fftSize) 0 ! (2 * n + 1) * cos (2 * pi * real k * real n / real fftSize)
                      - replicate (2 * fftSize) 0 ! (2 * n) * sin (2 * pi * real k * real n / real fftSize)))])
       [0..<fftSize] = map (\<lambda>k. [0, 0]) [0..<fftSize]"
    by (intro map_cong) simp_all
  then show ?thesis
    unfolding transform_def by (simp only: concat_const_pairs concat_zero_pairs length_map length_upt diff_zero)
qed

lemma magnitude_zero: "i < fftSize div 2 \<Longrightarrow> magnitude (replicate (2 * fftSize) 0) i = 0"
proof -
  assume "i < fftSize div 2"
  then have "i * 2 < 2 * fftSize" "i * 2 + 1 < 2 * fftSize" by (simp_all add: fftSize_def)
  then show ?thesis by (simp add: magnitude_def)
qed

lemma centroidDenominator_zero: "centroidDenominator (replicate (2 * fftSize) 0) = 0"
proof -
  have m: "map (magnitude (replicate (2 * fftSize) 0)) [1..<fftSize div 2]
        = map (\<lambda>i. 0) [1..<fftSize div 2]"
    by (intro map_cong) (simp_all add: magnitude_zero)
  show ?thesis unfolding centroidDenominator_def m by simp
qed

lemma frameCentroid_zero:
  "0 < rate \<Longrightarrow> fs + fftSize \<le> n \<Longrightarrow> frameCentroid rate (fftInput (replicate n 0) fs) = Some 0"
  by (simp add: frameCentroid_def fftInput_zero transform_zero centroid_def centroidDenominator_zero)

lemma framesLoop_zero:
  "(\<forall>fs. fs + fftSize \<le> segmentEnd \<longrightarrow> feature fs = Some 0) \<Longrightarrow>
   \<exists>c. framesLoop feature frameStart segmentEnd (Some t) framesCount = (Some t, c)
        \<and> framesCount \<le> c \<and> (frameStart + fftSize \<le> segmentEnd \<longrightarrow> framesCount < c)"
proof (induction feature frameStart segmentEnd "Some t :: real option" framesCount rule: framesLoop.induct)
  case (1 feature frameStart segmentEnd framesCount)
  show ?case
  proof (cases "frameStart + fftSize \<le> segmentEnd")
    case True
    then have x: "feature frameStart = Some 0" using "1.prems" by simp
    have "\<exists>c. framesLoop feature (frameStart + hopSize) segmentEnd (Some t) (framesCount + 1) = (Some t, c)
        \<and> framesCount + 1 \<le> c \<and> (frameStart + hopSize + fftSize \<le> segmentEnd \<longrightarrow> framesCount + 1 < c)"
      using "1.hyps" [OF True] "1.prems" x by simp
    then show ?thesis using True x by (subst framesLoop.simps) auto
  next
    case False
    then show ?thesis by (subst framesLoop.simps) simp
  qed
qed

lemma segmentValue_zero:
  assumes "\<forall>fs. fs + fftSize \<le> channelLength \<longrightarrow> feature fs = Some 0"
    and "segmentIndex * segmentSize + segmentSize \<le> channelLength"
    and "fftSize \<le> segmentSize"
  shows "segmentValue feature placeholder channelLength segmentSize segmentIndex = Some 0"
proof -
  let ?s = "segmentIndex * segmentSize"
  have e: "min (?s + segmentSize) channelLength = ?s + segmentSize" using assms(2) by simp
  have "\<forall>fs. fs + fftSize \<le> ?s + segmentSize \<longrightarrow> feature fs = Some 0"
    using assms(1,2) by simp
  from framesLoop_zero [OF this, of ?s 0 0]
  obtain c where c: "framesLoop feature ?s (?s + segmentSize) (Some 0) 0 = (Some 0, c)" "0 < c"
    using assms(3) by auto
  show ?thesis
    using c assms(3) unfolding segmentValue_def Let_def e by simp
qed

lemma flat_raw_values:
  "map (segmentValue (\<lambda>frameStart. frameCentroid 16000 (fftInput (replicate 16000 0) frameStart))
          0.5 16000 1600) [0..<10] = replicate 10 (Some 0)"
proof -
  let ?cd = "replicate 16000 (0::real)"
  let ?f = "\<lambda>frameStart. frameCentroid 16000 (fftInput ?cd frameStart)"
  have f: "\<forall>fs. fs + fftSize \<le> 16000 \<longrightarrow> ?f fs = Some 0"
    using frameCentroid_zero [of 16000 _ 16000] by simp
  have seg: "segmentValue ?f 0.5 16000 1600 i = Some 0" if "i < 10" for i
    using that by (intro segmentValue_zero [OF f]) (simp_all add: fftSize_def)
  have "map (segmentValue ?f 0.5 16000 1600) [0..<10] = map (\<lambda>i. Some 0) [0..<10]"
    using seg by (intro map_cong) simp_all
  then show ?thesis
    by (simp add: map_replicate_const)
qed

text \<open>
  C6: a mono buffer of 16000 zero samples at 16 kHz, 10 segments, centroid mode, the
  power \<open>p\<close> absent or positive. In every window the denominator is 0 and the centroid is
  0; the ten raw values are 0; the range of the normalization is forced to 1; the power
  transform leaves 0 unchanged; the result is ten values 0.
\<close>

theorem flat_signal:
  assumes "case normalizationPower (options this) of None \<Rightarrow> True | Some p \<Rightarrow> 0 < p"
    and "colorizeByBrightness (options this)"
  shows "(\<forall>frameStart. frameStart + fftSize \<le> 16000 \<longrightarrow>
            (\<exists>input. fftInput (replicate 16000 0) frameStart = Some input
               \<and> centroidDenominator (transform input) = 0
               \<and> centroid 16000 (transform input) = 0))
         \<and> map (segmentValue
                  (\<lambda>frameStart. frameCentroid 16000 (fftInput (replicate 16000 0) frameStart))
                  0.5 16000 1600) [0..<10] = replicate 10 (Some 0)
         \<and> valueRange (replicate 10 0) = 1
         \<and> powerTransform (normalizationPower (options this)) 0 = Num 0
         \<and> brightnessData (analyzeBrightness this
              \<lparr>sampleRate = 16000, firstChannel = replicate 16000 0, moreChannels = []\<rparr> 10)
            = replicate 10 (Num 0)"
proof -
  let ?cd = "replicate 16000 (0::real)"
  let ?B = "\<lparr>sampleRate = 16000, firstChannel = ?cd, moreChannels = []\<rparr>"
  have win: "\<forall>frameStart. frameStart + fftSize \<le> 16000 \<longrightarrow>
            (\<exists>input. fftInput ?cd frameStart = Some input
               \<and> centroidDenominator (transform input) = 0
               \<and> centroid 16000 (transform input) = 0)"
    by (simp add: fftInput_zero transform_zero centroidDenominator_zero centroid_def)
  have rng: "valueRange (replicate 10 0) = 1"
    by (simp add: valueRange_def)
  have norm: "normalizeValues (replicate 10 (Some 0)) = Some (replicate 10 0)"
    by (simp add: normalizeValues_def valueRange_def map_replicate_const)
  have p0: "powerTransform (normalizationPower (options this)) 0 = Num 0"
    using assms(1) by (auto simp: powerTransform_def Math_pow_def split: option.splits)
  have cd: "getChannelData ?B 0 = ?cd"
    by (simp add: getChannelData_def)
  have sr: "sampleRate ?B = 16000"
    by simp
  have dv: "(16000::nat) div 10 = 1600" by simp
  have raw': "map (segmentValue
                      (\<lambda>frameStart. frameCentroid (sampleRate ?B) (fftInput (getChannelData ?B 0) frameStart))
                      0.5 (length (getChannelData ?B 0)) (length (getChannelData ?B 0) div 10))
                   [0..<10] = replicate 10 (Some 0)"
    by (simp only: cd sr length_replicate dv flat_raw_values)
  have res: "brightnessData (analyzeBrightness this ?B 10) = replicate 10 (Num 0)"
    unfolding analyzeBrightness_def Let_def raw' norm
    using assms(2) by (simp add: p0)
  show ?thesis
    using win flat_raw_values rng p0 res by blast
qed

theorem flat_signal_witness:
  "(case normalizationPower (options (renderer (colorized None (Some 2)))) of None \<Rightarrow> True | Some p \<Rightarrow> 0 < p)
   \<and> colorizeByBrightness (options (renderer (colorized None (Some 2))))
   \<and> brightnessData (analyzeBrightness (renderer (colorized None (Some 2)))
        \<lparr>sampleRate = 16000, firstChannel = replicate 16000 0, moreChannels = []\<rparr> 10)
      = replicate 10 (Num 0)"
proof -
  have h1: "case normalizationPower (options (renderer (colorized None (Some 2)))) of None \<Rightarrow> True | Some p \<Rightarrow> 0 < p"
    by simp
  have h2: "colorizeByBrightness (options (renderer (colorized None (Some 2))))" by simp
  show ?thesis
    using flat_signal [OF h1 h2] h1 h2 by blast
qed

subsection \<open>The analysis arrays after \<open>render\<close>\<close>

lemma normalizeValues_length: "normalizeValues raw = Some ns \<Longrightarrow> length ns = length raw"
  by (auto simp: normalizeValues_def Let_def split: if_splits)

lemma analyzeBrightness_length:
  "colorizeByBrightness (options this) \<Longrightarrow> 1 \<le> n \<Longrightarrow>
   length (brightnessData (analyzeBrightness this audioBuffer n)) = n"
  by (auto simp: analyzeBrightness_def Let_def normalizeValues_length split: option.splits)

lemma analyzeProminentFrequency_length:
  "1 \<le> n \<Longrightarrow> length (prominentFrequencyData (analyzeProminentFrequency this audioBuffer n)) = n"
  by (auto simp: analyzeProminentFrequency_def Let_def normalizeValues_length split: option.splits)

lemma finalNumberOfSegments_pos: "1 \<le> nat (finalNumberOfSegments N width pixelRatio)"
  by (simp add: finalNumberOfSegments_def Let_def)

text \<open>
  C9: after \<open>render\<close> at most one of the two analysis arrays is not empty. With
  colorization and \<open>colorAnalysisType = 'prominentFrequency'\<close>,
  \<open>prominentFrequencyData\<close> is populated and \<open>brightnessData\<close> is empty; with
  colorization and any other type, \<open>brightnessData\<close> is populated and
  \<open>prominentFrequencyData\<close> is empty; without colorization both are empty.
\<close>

theorem analysis_arrays_after_render:
  "(colorizeByBrightness (options this) \<and> colorAnalysisType (options this) = Some ''prominentFrequency''
      \<longrightarrow> prominentFrequencyData (fst (render this host audioData)) \<noteq> []
          \<and> brightnessData (fst (render this host audioData)) = [])
   \<and> (colorizeByBrightness (options this) \<and> colorAnalysisType (options this) \<noteq> Some ''prominentFrequency''
      \<longrightarrow> brightnessData (fst (render this host audioData)) \<noteq> []
          \<and> prominentFrequencyData (fst (render this host audioData)) = [])
   \<and> (\<not> colorizeByBrightness (options this)
      \<longrightarrow> brightnessData (fst (render this host audioData)) = []
          \<and> prominentFrequencyData (fst (render this host audioData)) = [])
   \<and> (brightnessData (fst (render this host audioData)) = []
        \<or> prominentFrequencyData (fst (render this host audioData)) = [])"
proof -
  have pf: "prominentFrequencyData (analyzeProminentFrequency t audioData
              (nat (finalNumberOfSegments N w p))) \<noteq> []" for t N w p
    using analyzeProminentFrequency_length [OF finalNumberOfSegments_pos, of t audioData N w p]
      finalNumberOfSegments_pos [of N w p]
    by (metis length_0_conv not_one_le_zero)
  have br: "colorizeByBrightness (options t) \<Longrightarrow>
            brightnessData (analyzeBrightness t audioData (nat (finalNumberOfSegments N w p))) \<noteq> []"
    for t N w p
    using analyzeBrightness_length [OF _ finalNumberOfSegments_pos, of t audioData N w p]
      finalNumberOfSegments_pos [of N w p]
    by (metis length_0_conv not_one_le_zero)
  show ?thesis
    unfolding render_def Let_def
    by (auto simp: pf br)
qed

theorem analysis_arrays_after_render_witness:
  "colorizeByBrightness (options (renderer (colorized (Some ''prominentFrequency'') None)))
   \<and> colorAnalysisType (options (renderer (colorized (Some ''prominentFrequency'') None)))
       = Some ''prominentFrequency''
   \<and> prominentFrequencyData
        (fst (render (renderer (colorized (Some ''prominentFrequency'') None)) (browser 800 0)
                \<lparr>sampleRate = 8000, firstChannel = [0, 1, 0, - 1], moreChannels = []\<rparr>)) \<noteq> []
   \<and> brightnessData
        (fst (render (renderer (colorized (Some ''prominentFrequency'') None)) (browser 800 0)
                \<lparr>sampleRate = 8000, firstChannel = [0, 1, 0, - 1], moreChannels = []\<rparr>)) = []"
  using analysis_arrays_after_render
    [of "renderer (colorized (Some ''prominentFrequency'') None)" "browser 800 0"
        "\<lparr>sampleRate = 8000, firstChannel = [0, 1, 0, - 1], moreChannels = []\<rparr>"]
  by simp

subsection \<open>The segment count of \<open>render\<close>\<close>

lemma maxPossibleSegments_div: "maxPossibleSegments n = int (n div 128)"
  unfolding maxPossibleSegments_def fftSize_def
  by (metis floor_divide_of_nat_eq of_nat_numeral)

lemma analyzeBrightness_final:
  "colorizeByBrightness (options t) \<Longrightarrow>
   length (brightnessData (analyzeBrightness t audioData (nat (finalNumberOfSegments N w p))))
     = nat (finalNumberOfSegments N w p)"
  by (rule analyzeBrightness_length [OF _ finalNumberOfSegments_pos])

lemma analyzeProminentFrequency_final:
  "length (prominentFrequencyData
             (analyzeProminentFrequency t audioData (nat (finalNumberOfSegments N w p))))
     = nat (finalNumberOfSegments N w p)"
  by (rule analyzeProminentFrequency_length [OF finalNumberOfSegments_pos])

lemma render_segments:
  assumes "colorizeByBrightness (options this)"
  shows "length (brightnessData (fst (render this host audioData)))
         + length (prominentFrequencyData (fst (render this host audioData)))
         = nat (finalNumberOfSegments (audioLength audioData) (snd (render this host audioData))
                  (getPixelRatio (devicePixelRatio host)))"
proof (cases "colorAnalysisType (options this) = Some ''prominentFrequency''")
  case True
  then show ?thesis
    using assms
    by (simp add: render_def Let_def analyzeProminentFrequency_final)
next
  case False
  then show ?thesis
    using assms
    by (simp add: render_def Let_def analyzeBrightness_final)
qed

text \<open>
  C5, as stated: the segment count passed to the analysis is at most
  \<open>floor(N / 128)\<close>. This fails for a buffer shorter than one analysis window: with
  colorization enabled, a buffer of \<open>N = 100\<close> samples and a container 800 pixels wide,
  the bound is 0, the final \<open>Math.max(1, ...)\<close> passes 1, and \<open>render\<close> leaves one
  value in \<open>brightnessData\<close>.
\<close>

theorem segment_bound_counterexample:
  "colorizeByBrightness (options (renderer (colorized None None)))
   \<and> audioLength \<lparr>sampleRate = 8000, firstChannel = replicate 100 0, moreChannels = []\<rparr> = 100
   \<and> snd (render (renderer (colorized None None)) (browser 800 0)
            \<lparr>sampleRate = 8000, firstChannel = replicate 100 0, moreChannels = []\<rparr>) = 800
   \<and> getPixelRatio (devicePixelRatio (browser 800 0)) = 1
   \<and> finalNumberOfSegments 100 800 1 = 1
   \<and> length (brightnessData (fst (render (renderer (colorized None None)) (browser 800 0)
               \<lparr>sampleRate = 8000, firstChannel = replicate 100 0, moreChannels = []\<rparr>))) = 1
   \<and> \<lfloor>real 100 / 128\<rfloor> = 0
   \<and> \<not> finalNumberOfSegments 100 800 1 \<le> \<lfloor>real 100 / 128\<rfloor>"
proof -
  let ?a = "\<lparr>sampleRate = 8000, firstChannel = replicate 100 (0::real), moreChannels = []\<rparr>"
  let ?r = "renderer (colorized None None)"
  have c: "colorizeByBrightness (options ?r)" by simp
  have l: "audioLength ?a = 100" by (simp add: audioLength_def getChannelData_def)
  have w: "snd (render ?r (browser 800 0) ?a) = 800"
    by (simp add: render_def Let_def getPixelRatio_def orElse_def duration_def)
  have p: "getPixelRatio (devicePixelRatio (browser 800 0)) = 1"
    by (simp add: getPixelRatio_def orElse_def)
  have f: "finalNumberOfSegments 100 800 1 = 1"
    by (simp add: finalNumberOfSegments_def maxPossibleSegments_div segmentsBasedOnWidth_def)
  have e: "prominentFrequencyData (fst (render ?r (browser 800 0) ?a)) = []"
    by (simp add: render_def Let_def)
  have n: "length (brightnessData (fst (render ?r (browser 800 0) ?a))) = 1"
    using render_segments [OF c, of "browser 800 0" ?a] unfolding l w p f e by simp
  have z: "\<lfloor>real 100 / 128\<rfloor> = 0" by simp
  have x: "\<not> finalNumberOfSegments 100 800 1 \<le> \<lfloor>real 100 / 128\<rfloor>" unfolding f z by simp
  show ?thesis using c l w p f n z x by (intro conjI)
qed

text \<open>
  C5, amended: the segment count is at least 1 and at most \<open>max(1, floor(N / 128))\<close>;
  for a buffer of at least 128 samples it is at most \<open>floor(N / 128)\<close>. With colorization
  enabled it is the number of values that \<open>render\<close> leaves in the analysis arrays.
\<close>

theorem segment_bound:
  "1 \<le> finalNumberOfSegments N width pixelRatio
   \<and> finalNumberOfSegments N width pixelRatio \<le> max 1 \<lfloor>real N / 128\<rfloor>
   \<and> (128 \<le> N \<longrightarrow> finalNumberOfSegments N width pixelRatio \<le> \<lfloor>real N / 128\<rfloor>)
   \<and> (colorizeByBrightness (options this) \<longrightarrow>
        length (brightnessData (fst (render this host audioData)))
        + length (prominentFrequencyData (fst (render this host audioData)))
        = nat (finalNumberOfSegments (audioLength audioData) (snd (render this host audioData))
                 (getPixelRatio (devicePixelRatio host))))"
proof -
  have m: "maxPossibleSegments N = \<lfloor>real N / 128\<rfloor>"
    by (simp add: maxPossibleSegments_def fftSize_def)
  have "128 \<le> N \<Longrightarrow> 1 \<le> \<lfloor>real N / 128\<rfloor>"
    by (simp add: le_floor_iff)
  then have "1 \<le> finalNumberOfSegments N width pixelRatio
   \<and> finalNumberOfSegments N width pixelRatio \<le> max 1 \<lfloor>real N / 128\<rfloor>
   \<and> (128 \<le> N \<longrightarrow> finalNumberOfSegments N width pixelRatio \<le> \<lfloor>real N / 128\<rfloor>)"
    unfolding finalNumberOfSegments_def Let_def m by auto
  then show ?thesis
    using render_segments [of this host audioData] by blast
qed

theorem segment_bound_witness:
  "(128::nat) \<le> 1000 \<and> finalNumberOfSegments 1000 500 2 \<le> \<lfloor>real 1000 / 128\<rfloor>
   \<and> colorizeByBrightness (options (renderer (colorized None None)))
   \<and> length (brightnessData (fst (render (renderer (colorized None None)) (browser 800 0)
               \<lparr>sampleRate = 8000, firstChannel = [0, 1, 0, - 1], moreChannels = []\<rparr>)))
      + length (prominentFrequencyData (fst (render (renderer (colorized None None)) (browser 800 0)
               \<lparr>sampleRate = 8000, firstChannel = [0, 1, 0, - 1], moreChannels = []\<rparr>)))
      = 1"
proof -
  have h1: "(128::nat) \<le> 1000" by simp
  have h2: "colorizeByBrightness (options (renderer (colorized None None)))" by simp
  have n: "nat (finalNumberOfSegments
             (audioLength \<lparr>sampleRate = 8000, firstChannel = [0, 1, 0, - 1], moreChannels = []\<rparr>)
             (snd (render (renderer (colorized None None)) (browser 800 0)
                     \<lparr>sampleRate = 8000, firstChannel = [0, 1, 0, - 1], moreChannels = []\<rparr>))
             (getPixelRatio (devicePixelRatio (browser 800 0)))) = 1"
    by (simp add: finalNumberOfSegments_def maxPossibleSegments_div audioLength_def)
  note t = segment_bound [of 1000 500 2 "renderer (colorized None None)" "browser 800 0"
      "\<lparr>sampleRate = 8000, firstChannel = [0, 1, 0, - 1], moreChannels = []\<rparr>"]
  note bound = t [THEN conjunct2, THEN conjunct2, THEN conjunct1, THEN mp, OF h1]
  note count = t [THEN conjunct2, THEN conjunct2, THEN conjunct2, THEN mp, OF h2, unfolded n]
  show ?thesis
    using h1 bound h2 count by (intro conjI)
qed

subsection \<open>The fill style after colorized drawing\<close>

text \<open>
  C10: with per-segment colorization active (\<open>colorizeByBrightness\<close> set and
  \<open>brightnessData\<close> not empty), \<open>renderBarWaveform\<close> and \<open>renderLineWaveform\<close> leave the
  context with the fill style it had at entry; called from \<open>renderWaveform\<close> (no custom
  \<open>renderFunction\<close>) that is the fill derived from \<open>waveColor\<close>.
\<close>

theorem fillStyle_restored:
  assumes "colorizeByBrightness opts" and "length (brightnessData this) > 0"
  shows "fillStyle (renderBarWaveform this channelData opts ctx vScale pixelRatio) = fillStyle ctx
     \<and> fillStyle (renderLineWaveform this channelData opts ctx vScale) = fillStyle ctx
     \<and> (renderFunction opts = None \<longrightarrow>
          fillStyle (renderWaveform this dpr channelData opts ctx)
            = convertColorValues dpr (waveColor opts))"
  using assms
  by (simp add: renderBarWaveform_def renderLineWaveform_def renderWaveform_def Let_def)

text \<open>
  On four samples, two analysis values and the stops black and white: the bars are filled
  with their own colors, and the fill style is \<open>#999\<close> again afterwards.
\<close>

theorem fillStyle_restored_witness:
  "colorizeByBrightness ((colorized None None)\<lparr>barWidth := Some 1\<rparr>)
   \<and> length (brightnessData analysed) > 0
   \<and> fillStyle (renderBarWaveform analysed (Mono [1 / 2, 1, 1 / 4, 1])
        ((colorized None None)\<lparr>barWidth := Some 1\<rparr>) smallCanvas 1 1) = CssColor ''#999''
   \<and> fillStyle (renderLineWaveform analysed (Mono [1 / 2, 1, 1 / 4, 1])
        ((colorized None None)\<lparr>barWidth := Some 1\<rparr>) smallCanvas 1) = CssColor ''#999''
   \<and> filter (\<lambda>c. case c of Fill f \<Rightarrow> True | _ \<Rightarrow> False)
        (commands (renderBarWaveform analysed (Mono [1 / 2, 1, 1 / 4, 1])
           ((colorized None None)\<lparr>barWidth := Some 1\<rparr>) smallCanvas 1 1))
      = [Fill (CssColor ''rgb(0,0,0)''), Fill (CssColor ''rgb(0,0,0)''),
         Fill (CssColor ''rgb(255,255,255)'')]"
proof -
  have h1: "colorizeByBrightness ((colorized None None)\<lparr>barWidth := Some 1\<rparr>)" by simp
  have h2: "length (brightnessData analysed) > 0" by simp
  have fills: "filter (\<lambda>c. case c of Fill f \<Rightarrow> True | _ \<Rightarrow> False)
        (commands (renderBarWaveform analysed (Mono [1 / 2, 1, 1 / 4, 1])
           ((colorized None None)\<lparr>barWidth := Some 1\<rparr>) smallCanvas 1 1))
      = [Fill (CssColor ''rgb(0,0,0)''), Fill (CssColor ''rgb(0,0,0)''),
         Fill (CssColor ''rgb(255,255,255)'')]"
    by code_simp
  show ?thesis
    using fillStyle_restored [OF h1 h2, of "Mono [1 / 2, 1, 1 / 4, 1]" smallCanvas 1 1 None]
      h1 h2 fills
    by simp
qed

subsection \<open>Tile Manager\<close>


lemma tilingOf_Tiled:
  assumes "tilingOf host opts width = Tiled tg"
  shows "0 < singleCanvasWidth tg" and "0 < totalWidth tg"
    and "numCanvases tg = \<lceil>totalWidth tg / singleCanvasWidth tg\<rceil>"
  using assms
  by (auto simp: tilingOf_def Let_def split: if_splits option.splits)



lemma clampedWidth_pos:
  assumes W: "0 < singleCanvasWidth tg"
    and n: "numCanvases tg = \<lceil>totalWidth tg / singleCanvasWidth tg\<rceil>"
    and i: "0 \<le> i" "i < numCanvases tg"
  shows "0 < clampedWidth tg i"
proof -
  have "real_of_int i \<le> real_of_int (numCanvases tg) - 1" using i(2) by linarith
  also have "\<dots> < totalWidth tg / singleCanvasWidth tg" unfolding n by linarith
  finally have "real_of_int i * singleCanvasWidth tg < totalWidth tg"
    using W by (simp add: less_divide_eq)
  then show ?thesis using W by (simp add: clampedWidth_def tileOffset_def)
qed

lemma renderSingleCanvas_drawn [simp]:
  "drawnIndexes (renderSingleCanvas this host data opts width height offset tiles) = drawnIndexes tiles"
  by (simp add: renderSingleCanvas_def Let_def)

lemma draw_drawn:
  "drawnIndexes (draw this host channelData opts height tg i tiles) =
     (if 0 \<le> i \<and> i < numCanvases tg then insert i (drawnIndexes tiles) else drawnIndexes tiles)"
  by (auto simp: draw_def Let_def)


lemma renderSingleCanvas_geometry:
  "map geometry (canvasContainer (renderSingleCanvas this host data opts width height offset tiles))
     = map geometry (canvasContainer tiles) @ [(\<lfloor>offset + 1 / 2\<rfloor>, width)]"
  by (simp add: renderSingleCanvas_def Let_def geometry_def)


lemma draw_geometry:
  assumes W: "0 < singleCanvasWidth tg"
    and n: "numCanvases tg = \<lceil>totalWidth tg / singleCanvasWidth tg\<rceil>"
  shows "map geometry (canvasContainer (draw this host channelData opts height tg i tiles))
     = map geometry (canvasContainer tiles)
       @ (if 0 \<le> i \<and> i < numCanvases tg \<and> i \<notin> drawnIndexes tiles then [tileGeometry tg i] else [])"
  using clampedWidth_pos [OF W n, of i]
  by (auto simp: draw_def Let_def renderSingleCanvas_geometry tileGeometry_def)

lemma draws_geometry:
  assumes W: "0 < singleCanvasWidth tg"
    and n: "numCanvases tg = \<lceil>totalWidth tg / singleCanvasWidth tg\<rceil>"
  shows "distinct js \<Longrightarrow>
     map geometry (canvasContainer
        (foldl (\<lambda>tiles i. draw this host channelData opts height tg i tiles) tiles js))
     = map geometry (canvasContainer tiles)
       @ map (tileGeometry tg)
           (filter (\<lambda>i. 0 \<le> i \<and> i < numCanvases tg \<and> i \<notin> drawnIndexes tiles) js)"
proof (induction js arbitrary: tiles)
  case Nil
  then show ?case by simp
next
  case (Cons j js)
  let ?t = "draw this host channelData opts height tg j tiles"
  have d: "distinct js" and nj: "j \<notin> set js" using Cons.prems by auto
  have same: "filter (\<lambda>i. 0 \<le> i \<and> i < numCanvases tg \<and> i \<notin> drawnIndexes ?t) js
            = filter (\<lambda>i. 0 \<le> i \<and> i < numCanvases tg \<and> i \<notin> drawnIndexes tiles) js"
    using nj by (intro filter_cong) (auto simp: draw_drawn)
  show ?case
    using Cons.IH [OF d, of ?t] draw_geometry [OF W n, of this host channelData opts height j tiles]
    by (simp add: same)
qed


lemma drawAround_foldl:
  "drawAround this host channelData opts height tg c tiles
     = foldl (\<lambda>tiles i. draw this host channelData opts height tg i tiles) tiles [c - 1, c, c + 1]"
  by (simp add: drawAround_def)







subsection \<open>The scroll listener\<close>

lemma onScroll_drawn:
  "drawnIndexes (onScroll this host channelData opts height tg tiles)
     = drawnIndexes (clearCanvases tiles)
       \<union> {i \<in> {canvasIndexAt tg (scrollLeft host) - 1, canvasIndexAt tg (scrollLeft host),
                 canvasIndexAt tg (scrollLeft host) + 1}. 0 \<le> i \<and> i < numCanvases tg}"
  by (auto simp: onScroll_def drawAround_def draw_drawn)





subsection \<open>The hard reset\<close>

lemma renderSingleCanvas_progress:
  "length (progressContainer (renderSingleCanvas this host data opts width height offset tiles))
     \<le> length (progressContainer tiles) + 1"
  by (simp add: renderSingleCanvas_def Let_def)

lemma draw_progress:
  "length (progressContainer (draw this host channelData opts height tg i tiles))
     \<le> length (progressContainer tiles) + 1"
  using renderSingleCanvas_progress
    [of this host "tileData tg i channelData" opts "clampedWidth tg i" height "tileOffset tg i"
        "tiles\<lparr>drawnIndexes := insert i (drawnIndexes tiles)\<rparr>"]
  by (simp add: draw_def Let_def)

lemma drawAround_progress:
  "length (progressContainer (drawAround this host channelData opts height tg c tiles))
     \<le> length (progressContainer tiles) + 3"
proof -
  let ?d = "draw this host channelData opts height tg"
  have "length (progressContainer (?d (c + 1) (?d c (?d (c - 1) tiles))))
          \<le> length (progressContainer (?d c (?d (c - 1) tiles))) + 1"
    by (rule draw_progress)
  also have "\<dots> \<le> length (progressContainer (?d (c - 1) tiles)) + 1 + 1"
    using draw_progress [of this host channelData opts height tg c "?d (c - 1) tiles"] by simp
  also have "\<dots> \<le> length (progressContainer tiles) + 1 + 1 + 1"
    using draw_progress [of this host channelData opts height tg "c - 1" tiles] by simp
  finally show ?thesis by (simp add: drawAround_def)
qed

text \<open>
  C8: when more than \<open>MAX_NODES = 10\<close> tiles have been drawn, the next scroll event first
  empties both containers and forgets the drawn indices, and then draws the window: the
  result is that of drawing the three tiles around the new offset on empty containers. The
  drawn tiles are then those of the window with a valid index, one canvas each, and at
  most three progress canvases.
\<close>

theorem hard_reset:
  assumes "card (drawnIndexes tiles) > MAX_NODES"
    and "tilingOf host0 opts width = Tiled tg"
  shows "MAX_NODES = 10
     \<and> clearCanvases tiles = \<lparr>drawnIndexes = {}, canvasContainer = [], progressContainer = []\<rparr>
     \<and> onScroll this host channelData opts height tg tiles
         = drawAround this host channelData opts height tg (canvasIndexAt tg (scrollLeft host))
             \<lparr>drawnIndexes = {}, canvasContainer = [], progressContainer = []\<rparr>
     \<and> drawnIndexes (onScroll this host channelData opts height tg tiles)
         = {i \<in> {canvasIndexAt tg (scrollLeft host) - 1, canvasIndexAt tg (scrollLeft host),
                  canvasIndexAt tg (scrollLeft host) + 1}. 0 \<le> i \<and> i < numCanvases tg}
     \<and> map geometry (canvasContainer (onScroll this host channelData opts height tg tiles))
         = map (tileGeometry tg)
             (filter (\<lambda>i. 0 \<le> i \<and> i < numCanvases tg)
                [canvasIndexAt tg (scrollLeft host) - 1, canvasIndexAt tg (scrollLeft host),
                 canvasIndexAt tg (scrollLeft host) + 1])
     \<and> length (progressContainer (onScroll this host channelData opts height tg tiles)) \<le> 3"
proof -
  let ?none = "\<lparr>drawnIndexes = {}, canvasContainer = [], progressContainer = []\<rparr>"
  let ?c = "canvasIndexAt tg (scrollLeft host)"
  note wf = tilingOf_Tiled [OF assms(2)]
  have cl: "clearCanvases tiles = ?none"
    using assms(1) by (simp add: clearCanvases_def)
  have on: "onScroll this host channelData opts height tg tiles
              = drawAround this host channelData opts height tg ?c ?none"
    by (simp add: onScroll_def cl)
  have dr: "drawnIndexes (onScroll this host channelData opts height tg tiles)
         = {i \<in> {?c - 1, ?c, ?c + 1}. 0 \<le> i \<and> i < numCanvases tg}"
    using onScroll_drawn [of this host channelData opts height tg tiles] by (simp add: cl)
  have "distinct [?c - 1, ?c, ?c + 1]" by simp
  from draws_geometry [OF wf(1) wf(3) this, of this host channelData opts height ?none]
  have ge: "map geometry (canvasContainer (onScroll this host channelData opts height tg tiles))
         = map (tileGeometry tg)
             (filter (\<lambda>i. 0 \<le> i \<and> i < numCanvases tg) [?c - 1, ?c, ?c + 1])"
    unfolding on drawAround_foldl by simp
  have pr: "length (progressContainer (onScroll this host channelData opts height tg tiles)) \<le> 3"
    using drawAround_progress [of this host channelData opts height tg ?c ?none]
    unfolding on by simp
  show ?thesis
    using cl on dr ge pr by (simp add: MAX_NODES_def)
qed

text \<open>
  After the first rendering at tile 1 and scroll events at tiles 4, 7 and 10 twelve tiles
  are drawn; the scroll event at tile 13 leaves the three tiles 12, 13 and 14.
\<close>

theorem hard_reset_witness:
  "card (drawnIndexes scrolledThrice) > MAX_NODES
   \<and> tilingOf (browser 8000 8000) (colorized None None) 160000 = Tiled twentyTiles
   \<and> drawnIndexes (onScroll scrolling (browser 8000 104000) (Mono [0, 1 / 2, - 1, 1 / 2]) (colorized None None) 128
        twentyTiles scrolledThrice) = {12, 13, 14}
   \<and> map geometry (canvasContainer (onScroll scrolling (browser 8000 104000) (Mono [0, 1 / 2, - 1, 1 / 2])
        (colorized None None) 128 twentyTiles scrolledThrice))
       = [(96000, 8000), (104000, 8000), (112000, 8000)]"
proof -
  have h1: "card (drawnIndexes scrolledThrice) > MAX_NODES"
    by code_simp
  have h2: "tilingOf (browser 8000 8000) (colorized None None) 160000 = Tiled twentyTiles"
    by (simp add: tilingOf_def Let_def MAX_CANVAS_WIDTH_def adjustedWidth_def getPixelRatio_def
          orElse_def truthy_def)
  have c: "canvasIndexAt twentyTiles (scrollLeft (browser 8000 104000)) = 13"
    by (simp add: canvasIndexAt_def)
  have s: "{i \<in> {13 - 1, 13, 13 + 1}. 0 \<le> i \<and> i < numCanvases twentyTiles} = {12, 13, 14}"
    by auto
  have g: "map (tileGeometry twentyTiles)
             (filter (\<lambda>i. 0 \<le> i \<and> i < numCanvases twentyTiles) [13 - 1, 13, 13 + 1])
           = [(96000, 8000), (104000, 8000), (112000, 8000)]"
    by code_simp
  note t = hard_reset [OF h1 h2, of scrolling "browser 8000 104000" "Mono [0, 1 / 2, - 1, 1 / 2]" 128]
  note drawn = t [THEN conjunct2, THEN conjunct2, THEN conjunct2, THEN conjunct1, unfolded c s]
  note geo = t [THEN conjunct2, THEN conjunct2, THEN conjunct2, THEN conjunct2, THEN conjunct1,
                unfolded c g]
  show ?thesis
    using h1 h2 drawn geo by (intro conjI)
qed

end
